theory Spec2Isabelle
  imports Complex_Main "HOL-Library.Log_Nat"
begin

section \<open>JavaScript numbers\<close>

text \<open>
  A JavaScript number is an IEEE 754 double. Every finite double is a rational number;
  the prices that reach the alert service (from the price source and read back from the
  store) and the thresholds are finite. A value is a finite rational or one of the three
  special values. The sign of a zero is not represented: it decides no comparison, and
  the zero divisors that the service can meet are prices, which are not negative.
\<close>

datatype jsnum = Fin rat | PosInf | NegInf | NaN

text \<open>
  Rounding to the nearest double, ties to the even significand. \<open>ilog2 x\<close> is the binary
  exponent of a positive \<open>x\<close>, the \<open>e\<close> with \<open>2 ^ e \<le> x < 2 ^ (e + 1)\<close>. The doubles near
  \<open>x\<close> are the multiples of \<open>2 ^ (e - 52)\<close>, with the exponent not below \<open>-1022\<close>
  (subnormal numbers); a result of magnitude \<open>2 ^ 1024\<close> or more, which is reached
  from the exponent \<open>1023\<close> when the significand is rounded up to \<open>2 ^ 53\<close>, is an
  infinity.
\<close>

definition pow2 :: "int \<Rightarrow> rat" where
  "pow2 e = (if 0 \<le> e then 2 ^ nat e else 1 / 2 ^ nat (- e))"

definition ilog2 :: "rat \<Rightarrow> int" where
  "ilog2 x = (if 1 \<le> x then bitlen \<lfloor>x\<rfloor> - 1 else - bitlen (\<lceil>1 / x\<rceil> - 1))"

definition roundEven :: "rat \<Rightarrow> int" where
  "roundEven x =
     (let f = \<lfloor>x\<rfloor>; d = x - of_int f
      in if d < 1 / 2 then f else if 1 / 2 < d then f + 1
         else if even f then f else f + 1)"

definition fl :: "rat \<Rightarrow> jsnum" where
  "fl x =
     (if x = 0 then Fin 0
      else let e = max (ilog2 \<bar>x\<bar>) (- 1022);
               ulp = pow2 (e - 52);
               m = roundEven (x / ulp)
           in if 1024 \<le> e \<or> (e = 1023 \<and> 2 ^ 53 \<le> \<bar>m\<bar>)
              then (if 0 < x then PosInf else NegInf)
              else Fin (of_int m * ulp))"

text \<open>
  The three operations of the percentage change, each rounded:
  \<open>currentPrice - oldestPrice\<close> on two finite numbers, the division of the difference
  by the finite \<open>oldestPrice\<close>, and the multiplication by \<open>100\<close>. A division by zero gives
  an infinity with the sign of the dividend, or \<open>NaN\<close> for \<open>0 / 0\<close>.
\<close>

definition js_sub :: "rat \<Rightarrow> rat \<Rightarrow> jsnum" where
  "js_sub a b = fl (a - b)"

fun js_div :: "jsnum \<Rightarrow> rat \<Rightarrow> jsnum" where
  "js_div (Fin n) d =
     (if d \<noteq> 0 then fl (n / d)
      else if 0 < n then PosInf else if n < 0 then NegInf else NaN)"
| "js_div PosInf d = (if 0 \<le> d then PosInf else NegInf)"
| "js_div NegInf d = (if 0 \<le> d then NegInf else PosInf)"
| "js_div NaN d = NaN"

fun js_times :: "jsnum \<Rightarrow> rat \<Rightarrow> jsnum" where
  "js_times (Fin x) k = fl (x * k)"
| "js_times PosInf k = (if 0 < k then PosInf else if k < 0 then NegInf else NaN)"
| "js_times NegInf k = (if 0 < k then NegInf else if k < 0 then PosInf else NaN)"
| "js_times NaN k = NaN"

text \<open>\<open>x <= y\<close> for a finite \<open>y\<close>; every comparison with \<open>NaN\<close> is false.\<close>

fun js_le :: "jsnum \<Rightarrow> rat \<Rightarrow> bool" where
  "js_le (Fin x) y = (x \<le> y)"
| "js_le NegInf y = True"
| "js_le PosInf y = False"
| "js_le NaN y = False"

section \<open>Data model (tables of the database service)\<close>

text \<open>
  Rows of the tables \<open>users\<close>, \<open>alert_configs\<close>, \<open>price_history\<close>, \<open>alert_logs\<close>; of
  the table \<open>cryptocurrencies\<close> only the key \<open>id\<close> matters here.
  Identifiers are natural numbers. The minutes of a window and of the cooldown are natural
  numbers as well: the wizard stores a window of 5 to 1440 minutes, and the text
  \<open>'-N minutes'\<close> that the queries build is a modifier of \<open>datetime\<close> only for such
  an \<open>N\<close>.
\<close>

record User =
  user_id :: nat
  telegramId :: nat
  username :: "string option"

record AlertConfig =
  alert_id :: nat
  userId :: nat
  cryptoId :: string
  thresholdPercentage :: rat
  timeframeMinutes :: nat
  isActive :: bool

text \<open>
  \<open>price_history.timestamp\<close> is filled by \<open>CURRENT_TIMESTAMP\<close>, the text
  \<open>YYYY-MM-DD HH:MM:SS\<close>; it is represented by the number of seconds it denotes.
\<close>

record PriceHistory =
  ph_id :: nat
  ph_cryptoId :: string
  price :: rat
  timestamp :: int

text \<open>
  \<open>alert_logs.triggered_at\<close> is written by \<open>createAlertLog\<close> as
  \<open>log.triggeredAt.toISOString()\<close>, the text \<open>YYYY-MM-DDTHH:MM:SS.sssZ\<close>; it is
  represented by the number of milliseconds it denotes.
\<close>

record AlertLog =
  log_id :: nat
  alertConfigId :: nat
  triggeredAt :: int
  priceChange :: jsnum
  oldPrice :: rat
  newPrice :: rat
  sent :: bool

record store =
  cryptocurrencies :: "string list"
  users :: "User list"
  alert_configs :: "AlertConfig list"
  price_history :: "PriceHistory list"
  alert_logs :: "AlertLog list"

section \<open>Time and the comparison of stored timestamps\<close>

text \<open>
  An instant is a number of milliseconds since the epoch (\<open>new Date()\<close>). SQLite's
  \<open>datetime('now', ...)\<close> and \<open>CURRENT_TIMESTAMP\<close> give texts with a resolution of one
  second. Every insert and every query reads the clock when it is executed; the instant
  of each reading is an argument of the operation.
\<close>

definition sqlNow :: "int \<Rightarrow> int" where
  "sqlNow now = now div 1000"

text \<open>\<open>datetime('now', '-N minutes')\<close>, in seconds.\<close>

definition cutoff :: "int \<Rightarrow> nat \<Rightarrow> int" where
  "cutoff now minutes = sqlNow now - 60 * int minutes"

text \<open>
  \<open>timestamp >= datetime('now', '-N minutes')\<close> on \<open>price_history\<close>: both texts have the
  form \<open>YYYY-MM-DD HH:MM:SS\<close>, whose order as text is the order in time.
\<close>

definition sqlTextGe :: "int \<Rightarrow> int \<Rightarrow> bool" where
  "sqlTextGe t c = (c \<le> t)"

text \<open>
  \<open>triggered_at >= datetime('now', '-N minutes')\<close> on \<open>alert_logs\<close>: the left text is
  \<open>YYYY-MM-DDTHH:MM:SS.sssZ\<close>, the right one \<open>YYYY-MM-DD HH:MM:SS\<close>, and SQLite compares
  the two texts byte by byte. The first ten bytes are the calendar dates, ordered as the
  day numbers are; on equal dates the eleventh byte decides, and \<open>T\<close> is greater than the
  blank. So the comparison holds exactly when the day of the left instant is not before
  the day of the right one.
\<close>

definition isoTextGe :: "int \<Rightarrow> int \<Rightarrow> bool" where
  "isoTextGe t c = (c div 86400 \<le> t div 86400000)"

section \<open>DatabaseService\<close>

text \<open>
  The driver binds numbers, strings, bigints, buffers and \<open>null\<close> to the parameters of
  a statement; for any other value \<open>run\<close>, \<open>get\<close> and \<open>all\<close> throw a \<open>TypeError\<close>
  before the statement is executed. A parameter is represented by its runtime type.
\<close>

datatype jstype = JsNumber | JsString | JsBoolean | JsNull

fun bindable :: "jstype \<Rightarrow> bool" where
  "bindable JsBoolean = False"
| "bindable JsNumber = True"
| "bindable JsString = True"
| "bindable JsNull = True"

text \<open>\<open>INTEGER PRIMARY KEY AUTOINCREMENT\<close>: one more than every id of the table.\<close>

definition nextId :: "nat list \<Rightarrow> nat" where
  "nextId ids = Suc (fold max ids 0)"

definition getUserByTelegramId :: "store \<Rightarrow> nat \<Rightarrow> User option" where
  "getUserByTelegramId st tid = find (\<lambda>u. telegramId u = tid) (users st)"

definition getAllActiveAlerts :: "store \<Rightarrow> AlertConfig list" where
  "getAllActiveAlerts st = filter isActive (alert_configs st)"

text \<open>
  \<open>savePriceHistory\<close> binds a string and a number. The driver enforces foreign keys:
  the insert throws (\<open>None\<close>) unless \<open>cryptocurrencies\<close> has a row for the asset. The
  timestamp is the clock reading of the insert.
\<close>

definition savePriceHistory :: "store \<Rightarrow> int \<Rightarrow> string \<Rightarrow> rat \<Rightarrow> store option" where
  "savePriceHistory st now cid p =
     (if \<not> list_all bindable [JsString, JsNumber] then None
      else if cid \<notin> set (cryptocurrencies st) then None
      else Some (st\<lparr>price_history := price_history st @
                  [\<lparr>ph_id = nextId (map ph_id (price_history st)), ph_cryptoId = cid,
                    price = p, timestamp = sqlNow now\<rparr>]\<rparr>))"

text \<open>
  \<open>ORDER BY timestamp DESC\<close>: SQL leaves the order of rows with equal timestamps open;
  the model puts the row inserted later first. The theorems below use only that the
  result is ordered by timestamp. \<open>now\<close> is the clock reading of the query.
\<close>

definition getPriceHistory :: "store \<Rightarrow> int \<Rightarrow> string \<Rightarrow> nat \<Rightarrow> PriceHistory list" where
  "getPriceHistory st now cid tf =
     rev (sort_key timestamp
       (filter (\<lambda>r. ph_cryptoId r = cid \<and> sqlTextGe (timestamp r) (cutoff now tf))
          (price_history st)))"

text \<open>
  \<open>createAlertLog\<close> binds \<open>alertConfigId\<close>, the ISO text of \<open>triggeredAt\<close>,
  \<open>priceChange\<close>, \<open>oldPrice\<close>, \<open>newPrice\<close> and \<open>sent\<close>. The last one is a JavaScript
  boolean, which the driver does not bind: the call throws (\<open>None\<close>) for every
  argument, and the insert (with its foreign key to \<open>alert_configs\<close>) is never executed.
\<close>

definition createAlertLog ::
  "store \<Rightarrow> nat \<Rightarrow> int \<Rightarrow> jsnum \<Rightarrow> rat \<Rightarrow> rat \<Rightarrow> bool \<Rightarrow> (AlertLog \<times> store) option" where
  "createAlertLog st aid t pc old new snt =
     (if \<not> list_all bindable [JsNumber, JsString, JsNumber, JsNumber, JsNumber, JsBoolean]
      then None
      else if aid \<notin> set (map alert_id (alert_configs st)) then None
      else let l = \<lparr>log_id = nextId (map log_id (alert_logs st)), alertConfigId = aid,
                     triggeredAt = t, priceChange = pc, oldPrice = old, newPrice = new,
                     sent = snt\<rparr>
           in Some (l, st\<lparr>alert_logs := alert_logs st @ [l]\<rparr>))"

text \<open>\<open>now\<close> is the clock reading of the query.\<close>

definition getRecentAlertLogs :: "store \<Rightarrow> int \<Rightarrow> nat \<Rightarrow> nat \<Rightarrow> AlertLog list" where
  "getRecentAlertLogs st now aid minutes =
     rev (sort_key triggeredAt
       (filter (\<lambda>l. alertConfigId l = aid \<and> isoTextGe (triggeredAt l) (cutoff now minutes))
          (alert_logs st)))"

section \<open>Collaborators of the alert service\<close>

text \<open>
  What the alert service does to the outside, in the order in which it does it: the calls
  to the database service, the price source and the bot, and the lines it logs.
\<close>

datatype level = Debug | Info | Warn | Error

datatype logmsg =
    Starting_price_change_check
  | No_active_alerts_to_check
  | Checking_prices_for nat
  | No_current_price_available string
  | Error_checking_alert nat
  | Price_change_check_completed
  | Error_during_price_change_check
  | Alert_in_cooldown nat
  | No_price_history_available string
  | Alert_should_trigger nat jsnum
  | Error_checking_should_trigger
  | Triggering_alert nat nat
  | User_not_found nat
  | Alert_sent_successfully nat
  | Failed_to_send_message
  | Error_triggering_alert

text \<open>
  The rendered text of a notification is not modelled; a message is the arguments of
  \<open>formatAlertMessage\<close>. The coin name is \<open>name (SYMBOL)\<close> when the coin is known and
  the asset identifier otherwise.
\<close>

datatype coinName = Known string string | Unknown string

datatype message = AlertMessage coinName jsnum rat rat nat

text \<open>
  \<open>Call_createAlertLog\<close> carries the fields of the entry that \<open>triggerAlert\<close> passes:
  alert id, trigger time, percentage change, old price, new price and the sent flag.
\<close>

datatype event =
    Call_getAllActiveAlerts
  | Call_getCurrentPrices "string list"
  | Call_savePriceHistory string rat
  | Call_getRecentAlertLogs nat nat
  | Call_getPriceHistory string nat
  | Call_createAlertLog nat int jsnum rat rat bool
  | Call_getCoinInfo string
  | Call_getUserByTelegramId nat
  | Call_sendMessage nat message
  | Log level logmsg

text \<open>
  The environment of one tick. \<open>ALERT_COOLDOWN_MINUTES\<close> is the value of the
  configuration (its schema is not part of the sources; it is a parameter here).
  \<open>getCurrentPrices\<close> is the answer of the price source to a request: the entries of
  the returned \<open>Map\<close> in iteration order, or \<open>None\<close> when the call throws.
  \<open>getCoinInfo\<close> is the coin table of the price source (name and symbol).

  Every call to a collaborator may throw for a reason of its own (a busy or full
  database, the network). Each call site has its own predicate, which says for which
  alert (by id) or asset the call throws in this tick, apart from the failures that the
  database service above decides itself.

  Every call site that reads the clock has its own instant: \<open>clock_save\<close> for the
  insert of an asset's sample, and for each alert \<open>clock_cooldownQuery\<close>,
  \<open>clock_historyQuery\<close> (both in \<open>shouldTriggerAlert\<close>), \<open>clock_historyRequery\<close>
  (the second history query, in \<open>checkPriceChanges\<close>), \<open>clock_newDate\<close> and
  \<open>clock_sentQuery\<close> (in \<open>triggerAlert\<close>).
\<close>

record env =
  ALERT_COOLDOWN_MINUTES :: nat
  getCurrentPrices :: "string list \<Rightarrow> (string \<times> rat) list option"
  getCoinInfo :: "string \<Rightarrow> (string \<times> string) option"
  getAllActiveAlerts_throws :: bool
  savePriceHistory_throws :: "string \<Rightarrow> bool"
  cooldownQuery_throws :: "nat \<Rightarrow> bool"
  historyQuery_throws :: "nat \<Rightarrow> bool"
  historyRequery_throws :: "nat \<Rightarrow> bool"
  getCoinInfo_throws :: "nat \<Rightarrow> bool"
  getUser_throws :: "nat \<Rightarrow> bool"
  sendMessage_throws :: "nat \<Rightarrow> bool"
  sentQuery_throws :: "nat \<Rightarrow> bool"
  clock_save :: "string \<Rightarrow> int"
  clock_cooldownQuery :: "nat \<Rightarrow> int"
  clock_historyQuery :: "nat \<Rightarrow> int"
  clock_historyRequery :: "nat \<Rightarrow> int"
  clock_newDate :: "nat \<Rightarrow> int"
  clock_sentQuery :: "nat \<Rightarrow> int"

section \<open>AlertService\<close>

subsection \<open>The percentage change\<close>

text \<open>\<open>((currentPrice - oldestPrice) / oldestPrice) * 100\<close>, in doubles.\<close>

definition priceChangePercent :: "rat \<Rightarrow> rat \<Rightarrow> jsnum" where
  "priceChangePercent currentPrice oldestPrice =
     js_times (js_div (js_sub currentPrice oldestPrice) oldestPrice) 100"

subsection \<open>shouldTriggerAlert\<close>

text \<open>
  The whole body is inside \<open>try\<close>; a throwing query is logged and answered with
  \<open>false\<close>. The result is the decision together with the events of the call. \<open>now\<close> is
  the instant at which the function is entered and its first query, for the recent log
  entries, reads the clock; the history query reads the clock at its own instant.
\<close>

definition shouldTriggerAlert ::
  "env \<Rightarrow> store \<Rightarrow> int \<Rightarrow> AlertConfig \<Rightarrow> rat \<Rightarrow> bool \<times> event list" where
  "shouldTriggerAlert e st now alertConfig currentPrice =
     (let q1 = Call_getRecentAlertLogs (alert_id alertConfig) (ALERT_COOLDOWN_MINUTES e) in
      if cooldownQuery_throws e (alert_id alertConfig)
      then (False, [q1, Log Error Error_checking_should_trigger])
      else let recentLogs = getRecentAlertLogs st now (alert_id alertConfig)
                              (ALERT_COOLDOWN_MINUTES e) in
      if length recentLogs > 0
      then (False, [q1, Log Debug (Alert_in_cooldown (alert_id alertConfig))])
      else let q2 = Call_getPriceHistory (cryptoId alertConfig)
                      (timeframeMinutes alertConfig) in
      if historyQuery_throws e (alert_id alertConfig)
      then (False, [q1, q2, Log Error Error_checking_should_trigger])
      else let priceHistory = getPriceHistory st
                                (clock_historyQuery e (alert_id alertConfig))
                                (cryptoId alertConfig) (timeframeMinutes alertConfig) in
      if length priceHistory = 0
      then (False, [q1, q2, Log Debug (No_price_history_available (cryptoId alertConfig))])
      else let oldestPrice = price (last priceHistory);
               priceChangePercent = priceChangePercent currentPrice oldestPrice;
               shouldTrigger =
                 js_le priceChangePercent (- thresholdPercentage alertConfig)
           in (shouldTrigger,
               [q1, q2] @
               (if shouldTrigger
                then [Log Info (Alert_should_trigger (alert_id alertConfig)
                                  priceChangePercent)]
                else [])))"

subsection \<open>triggerAlert\<close>

text \<open>
  The body is inside \<open>try\<close>: a throw of \<open>createAlertLog\<close>, \<open>getCoinInfo\<close> or
  \<open>getUserByTelegramId\<close> ends the function with an error line. The sending and the
  query that follows it have a \<open>try\<close> of their own. After a successful sending the
  source reads the recent log entries and, when there are some, only logs the success
  (``this would require an update method for alert logs''); no entry is written.
  \<open>now\<close> is the instant of \<open>new Date()\<close>.
\<close>

definition triggerAlert ::
  "env \<Rightarrow> store \<Rightarrow> int \<Rightarrow> AlertConfig \<Rightarrow> jsnum \<Rightarrow> rat \<Rightarrow> rat \<Rightarrow> store \<times> event list" where
  "triggerAlert e st now alertConfig pc old new =
     (let aid = alert_id alertConfig;
          ev1 = [Log Info (Triggering_alert aid (userId alertConfig)),
                 Call_createAlertLog aid now pc old new False] in
      case createAlertLog st aid now pc old new False of
        None \<Rightarrow> (st, ev1 @ [Log Error Error_triggering_alert])
      | Some (entry, st1) \<Rightarrow>
      let ev2 = ev1 @ [Call_getCoinInfo (cryptoId alertConfig)] in
      if getCoinInfo_throws e aid
      then (st1, ev2 @ [Log Error Error_triggering_alert])
      else let coinName = (case getCoinInfo e (cryptoId alertConfig) of
                             Some (name, symbol) \<Rightarrow> Known name symbol
                           | None \<Rightarrow> Unknown (cryptoId alertConfig));
               ev3 = ev2 @ [Call_getUserByTelegramId (userId alertConfig)] in
      if getUser_throws e aid
      then (st1, ev3 @ [Log Error Error_triggering_alert])
      else (case getUserByTelegramId st1 (userId alertConfig) of
              None \<Rightarrow> (st1, ev3 @ [Log Error (User_not_found aid)])
            | Some user \<Rightarrow>
                let msg = AlertMessage coinName pc old new (timeframeMinutes alertConfig);
                    ev4 = ev3 @ [Call_sendMessage (telegramId user) msg] in
                if sendMessage_throws e aid
                then (st1, ev4 @ [Log Error Failed_to_send_message])
                else let ev5 = ev4 @ [Call_getRecentAlertLogs aid 5] in
                if sentQuery_throws e aid
                then (st1, ev5 @ [Log Error Failed_to_send_message])
                else if length (getRecentAlertLogs st1 (clock_sentQuery e aid) aid 5) > 0
                then (st1, ev5 @ [Log Info (Alert_sent_successfully (telegramId user))])
                else (st1, ev5)))"

subsection \<open>checkPriceChanges\<close>

text \<open>
  \<open>alertsByCrypto\<close>: a \<open>Map\<close> from asset to the alerts on it, filled in the order of
  the active alerts; a \<open>Map\<close> iterates in the order in which its keys were first set.
\<close>

fun insertAlert ::
  "AlertConfig \<Rightarrow> (string \<times> AlertConfig list) list \<Rightarrow> (string \<times> AlertConfig list) list" where
  "insertAlert a [] = [(cryptoId a, [a])]"
| "insertAlert a ((k, as) # g) =
     (if k = cryptoId a then (k, as @ [a]) # g else (k, as) # insertAlert a g)"

definition alertsByCrypto :: "AlertConfig list \<Rightarrow> (string \<times> AlertConfig list) list" where
  "alertsByCrypto activeAlerts = foldl (\<lambda>g a. insertAlert a g) [] activeAlerts"

text \<open>
  The loop that saves the fetched prices. It has no \<open>try\<close> of its own: a throw of
  \<open>savePriceHistory\<close> leaves the loop (first component \<open>False\<close>) and reaches the handler
  of the whole tick.
\<close>

fun savePrices ::
  "env \<Rightarrow> store \<Rightarrow> (string \<times> rat) list \<Rightarrow> bool \<times> store \<times> event list" where
  "savePrices e st [] = (True, st, [])"
| "savePrices e st ((cid, p) # ps) =
     (if savePriceHistory_throws e cid then (False, st, [Call_savePriceHistory cid p])
      else case savePriceHistory st (clock_save e cid) cid p of
             None \<Rightarrow> (False, st, [Call_savePriceHistory cid p])
           | Some st1 \<Rightarrow>
               let (ok, st', evs) = savePrices e st1 ps
               in (ok, st', Call_savePriceHistory cid p # evs))"

text \<open>
  The body of the loop over the alerts of one asset, with its \<open>try\<close>:
  \<open>shouldTriggerAlert\<close> and \<open>triggerAlert\<close> catch their own errors, so the handler of the
  loop is reached only by a throw of the second history query. \<open>now\<close> is the instant at
  which the body is entered, the one of the first query of \<open>shouldTriggerAlert\<close>.
\<close>

definition checkAlert ::
  "env \<Rightarrow> store \<Rightarrow> int \<Rightarrow> AlertConfig \<Rightarrow> rat \<Rightarrow> store \<times> event list" where
  "checkAlert e st now alert currentPrice =
     (let (should, ev1) = shouldTriggerAlert e st now alert currentPrice in
      if should
      then let ev2 = ev1 @ [Call_getPriceHistory (cryptoId alert) (timeframeMinutes alert)] in
           if historyRequery_throws e (alert_id alert)
           then (st, ev2 @ [Log Error (Error_checking_alert (alert_id alert))])
           else let priceHistory = getPriceHistory st
                                     (clock_historyRequery e (alert_id alert))
                                     (cryptoId alert) (timeframeMinutes alert) in
                if length priceHistory > 0
                then let oldPrice = price (last priceHistory);
                         priceChange = priceChangePercent currentPrice oldPrice;
                         (st', ev3) = triggerAlert e st (clock_newDate e (alert_id alert))
                                        alert priceChange oldPrice currentPrice
                     in (st', ev2 @ ev3)
                else (st, ev2)
      else (st, ev1))"

fun checkAlerts ::
  "env \<Rightarrow> store \<Rightarrow> rat \<Rightarrow> AlertConfig list \<Rightarrow> store \<times> event list" where
  "checkAlerts e st currentPrice [] = (st, [])"
| "checkAlerts e st currentPrice (alert # alerts) =
     (let (st1, ev1) = checkAlert e st (clock_cooldownQuery e (alert_id alert)) alert
                         currentPrice;
          (st2, ev2) = checkAlerts e st1 currentPrice alerts
      in (st2, ev1 @ ev2))"

text \<open>
  The loop over the assets. \<open>currentPrices.get(cryptoId)\<close> is \<open>undefined\<close> for an asset
  that is not in the answer, and \<open>!currentPrice\<close> holds for \<open>undefined\<close> and for the
  price \<open>0\<close>.
\<close>

fun checkGroups ::
  "env \<Rightarrow> store \<Rightarrow> (string \<times> rat) list \<Rightarrow> (string \<times> AlertConfig list) list \<Rightarrow>
   store \<times> event list" where
  "checkGroups e st currentPrices [] = (st, [])"
| "checkGroups e st currentPrices ((cid, alerts) # groups) =
     (let (st1, ev1) =
            (case map_of currentPrices cid of
               None \<Rightarrow> (st, [Log Warn (No_current_price_available cid)])
             | Some currentPrice \<Rightarrow>
                 if currentPrice = 0 then (st, [Log Warn (No_current_price_available cid)])
                 else checkAlerts e st currentPrice alerts);
          (st2, ev2) = checkGroups e st1 currentPrices groups
      in (st2, ev1 @ ev2))"

definition checkPriceChanges :: "env \<Rightarrow> store \<Rightarrow> store \<times> event list" where
  "checkPriceChanges e st =
     (let ev0 = [Log Info Starting_price_change_check, Call_getAllActiveAlerts];
          failed = Log Error Error_during_price_change_check in
      if getAllActiveAlerts_throws e then (st, ev0 @ [failed])
      else let activeAlerts = getAllActiveAlerts st in
      if length activeAlerts = 0 then (st, ev0 @ [Log Debug No_active_alerts_to_check])
      else let groups = alertsByCrypto activeAlerts;
               cryptoIds = map fst groups;
               ev1 = ev0 @ [Log Debug (Checking_prices_for (length cryptoIds)),
                            Call_getCurrentPrices cryptoIds] in
      (case getCurrentPrices e cryptoIds of
         None \<Rightarrow> (st, ev1 @ [failed])
       | Some currentPrices \<Rightarrow>
           let (ok, st1, ev2) = savePrices e st currentPrices in
           if \<not> ok then (st1, ev1 @ ev2 @ [failed])
           else let (st2, ev3) = checkGroups e st1 currentPrices groups
                in (st2, ev1 @ ev2 @ ev3 @ [Log Info Price_change_check_completed])))"

section \<open>Scenarios\<close>

text \<open>
  An environment in which no call throws for a reason of its own, the price source knows
  no coin names, and every clock reading of the tick gives the same instant \<open>t\<close>.
\<close>

definition quietAt :: "int \<Rightarrow> nat \<Rightarrow> (string \<times> rat) list \<Rightarrow> env" where
  "quietAt t cd prices =
     \<lparr>ALERT_COOLDOWN_MINUTES = cd, getCurrentPrices = (\<lambda>ids. Some prices),
      getCoinInfo = (\<lambda>cid. None), getAllActiveAlerts_throws = False,
      savePriceHistory_throws = (\<lambda>cid. False), cooldownQuery_throws = (\<lambda>aid. False),
      historyQuery_throws = (\<lambda>aid. False), historyRequery_throws = (\<lambda>aid. False),
      getCoinInfo_throws = (\<lambda>aid. False),
      getUser_throws = (\<lambda>aid. False), sendMessage_throws = (\<lambda>aid. False),
      sentQuery_throws = (\<lambda>aid. False),
      clock_save = (\<lambda>cid. t), clock_cooldownQuery = (\<lambda>aid. t),
      clock_historyQuery = (\<lambda>aid. t), clock_historyRequery = (\<lambda>aid. t),
      clock_newDate = (\<lambda>aid. t), clock_sentQuery = (\<lambda>aid. t)\<rparr>"

text \<open>The same with every clock reading one hour (3600000 ms) after the epoch.\<close>

definition quiet :: "nat \<Rightarrow> (string \<times> rat) list \<Rightarrow> env" where
  "quiet cd prices = quietAt 3600000 cd prices"

text \<open>
  An alert on bitcoin with a threshold of 5 percent and a window of 60 minutes, and a
  store that holds it, with samples at 120 (before the window of a query at 3600000 ms),
  100 and 98.
\<close>

definition btcAlert :: AlertConfig where
  "btcAlert = \<lparr>alert_id = 1, userId = 1, cryptoId = ''bitcoin'', thresholdPercentage = 5,
               timeframeMinutes = 60, isActive = True\<rparr>"

definition sample :: "nat \<Rightarrow> string \<Rightarrow> rat \<Rightarrow> int \<Rightarrow> PriceHistory" where
  "sample i cid p t = \<lparr>ph_id = i, ph_cryptoId = cid, price = p, timestamp = t\<rparr>"

definition storeA :: store where
  "storeA = \<lparr>cryptocurrencies = [''bitcoin''],
             users = [\<lparr>user_id = 1, telegramId = 1000, username = Some ''alice''\<rparr>],
             alert_configs = [btcAlert],
             price_history = [sample 1 ''bitcoin'' 120 (- 10), sample 2 ''bitcoin'' 100 0,
                              sample 3 ''bitcoin'' 98 1800],
             alert_logs = []\<rparr>"

text \<open>The log entry of that alert for a fall from 100 to 94 at the instant \<open>t\<close>.\<close>

definition firedAt :: "int \<Rightarrow> AlertLog" where
  "firedAt t = \<lparr>log_id = 1, alertConfigId = 1, triggeredAt = t, priceChange = Fin (- 6),
                oldPrice = 100, newPrice = 94, sent = False\<rparr>"

text \<open>
  Alerts on two assets and a third alert, again on bitcoin, with a threshold of 29
  percent; a store with one sample of 100 for bitcoin and one of 20 for ethereum, both
  one hour old at 3600000 ms.
\<close>

definition ethAlert :: AlertConfig where
  "ethAlert = \<lparr>alert_id = 2, userId = 1, cryptoId = ''ethereum'', thresholdPercentage = 5,
               timeframeMinutes = 60, isActive = True\<rparr>"

definition btcAlert29 :: AlertConfig where
  "btcAlert29 = \<lparr>alert_id = 3, userId = 1, cryptoId = ''bitcoin'', thresholdPercentage = 29,
                 timeframeMinutes = 60, isActive = True\<rparr>"

definition twoAssets :: store where
  "twoAssets = \<lparr>cryptocurrencies = [''bitcoin'', ''ethereum''],
                users = [\<lparr>user_id = 1, telegramId = 1000, username = Some ''alice''\<rparr>],
                alert_configs = [btcAlert, ethAlert],
                price_history = [sample 1 ''bitcoin'' 100 0, sample 2 ''ethereum'' 20 0],
                alert_logs = []\<rparr>"

text \<open>The store with the three alerts.\<close>

definition threeAlerts :: store where
  "threeAlerts = twoAssets\<lparr>alert_configs := [btcAlert, ethAlert, btcAlert29]\<rparr>"

lemmas run = checkPriceChanges_def getAllActiveAlerts_def alertsByCrypto_def
  checkAlert_def shouldTriggerAlert_def triggerAlert_def createAlertLog_def
  getUserByTelegramId_def nextId_def Let_def savePriceHistory_def

lemmas scen = quiet_def quietAt_def btcAlert_def sample_def storeA_def firedAt_def
  getRecentAlertLogs_def getPriceHistory_def cutoff_def sqlNow_def sqlTextGe_def isoTextGe_def

section \<open>Properties of the rounding\<close>

lemma pow2_pos: "0 < pow2 e"
  by (simp add: pow2_def)

text \<open>The binary exponent: \<open>ilog2\<close> is the floor of the logarithm to the base 2.\<close>

lemma ilog2_bounds:
  assumes "0 < x"
  shows "pow2 (ilog2 x) \<le> x \<and> x < pow2 (ilog2 x + 1)"
proof (cases "1 \<le> x")
  case True
  let ?n = "\<lfloor>x\<rfloor>"
  have n: "0 < ?n" using True by simp
  from bitlen_bounds [OF n] have b: "2 ^ nat (bitlen ?n - 1) \<le> ?n" "?n < 2 ^ nat (bitlen ?n)"
    by simp_all
  have bl: "1 \<le> bitlen ?n"
    using n bitlen_eq_zero_iff [of ?n] bitlen_nonneg [of ?n] by linarith
  have lo: "(2::rat) ^ nat (bitlen ?n - 1) \<le> x"
  proof -
    have "(2::rat) ^ nat (bitlen ?n - 1) = of_int (2 ^ nat (bitlen ?n - 1))" by simp
    also have "\<dots> \<le> of_int ?n" using b(1) by (simp only: of_int_le_iff)
    also have "\<dots> \<le> x" by (rule of_int_floor_le)
    finally show ?thesis .
  qed
  have hi: "x < (2::rat) ^ nat (bitlen ?n)"
  proof -
    have "?n + 1 \<le> 2 ^ nat (bitlen ?n)" using b(2) by simp
    then have m: "(of_int (?n + 1) :: rat) \<le> of_int (2 ^ nat (bitlen ?n))"
      by (simp only: of_int_le_iff)
    have "x < of_int (?n + 1)" by linarith
    also note m
    also have "(of_int (2 ^ nat (bitlen ?n)) :: rat) = 2 ^ nat (bitlen ?n)" by simp
    finally show ?thesis .
  qed
  have "nat (bitlen ?n - 1 + 1) = nat (bitlen ?n)" by simp
  then show ?thesis using True lo hi bl by (simp add: ilog2_def pow2_def)
next
  case False
  let ?y = "1 / x"
  let ?m = "\<lceil>?y\<rceil>"
  have y1: "1 < ?y" using False assms by simp
  then have m2: "0 < ?m - 1" by linarith
  let ?k = "bitlen (?m - 1)"
  from bitlen_bounds [OF m2] have b: "2 ^ nat (?k - 1) \<le> ?m - 1" "?m - 1 < 2 ^ nat ?k"
    by simp_all
  have k1: "1 \<le> ?k"
    using m2 bitlen_eq_zero_iff [of "?m - 1"] bitlen_nonneg [of "?m - 1"] by linarith
  have hi: "?y \<le> (2::rat) ^ nat ?k"
  proof -
    have "?m \<le> 2 ^ nat ?k" using b(2) by simp
    then have m: "(of_int ?m :: rat) \<le> of_int (2 ^ nat ?k)" by (simp only: of_int_le_iff)
    have "?y \<le> of_int ?m" by (rule le_of_int_ceiling)
    also note m
    also have "(of_int (2 ^ nat ?k) :: rat) = 2 ^ nat ?k" by simp
    finally show ?thesis .
  qed
  have lo: "(2::rat) ^ nat (?k - 1) < ?y"
  proof -
    have "(2::rat) ^ nat (?k - 1) = of_int (2 ^ nat (?k - 1))" by simp
    also have "\<dots> \<le> of_int (?m - 1)" using b(1) by (simp only: of_int_le_iff)
    also have "\<dots> < ?y" by linarith
    finally show ?thesis .
  qed
  have p1: "pow2 (- ?k) = 1 / 2 ^ nat ?k" using k1 by (simp add: pow2_def)
  have p2: "pow2 (- ?k + 1) = 1 / 2 ^ nat (?k - 1)"
  proof (cases "?k = 1")
    case True
    then show ?thesis by (simp add: pow2_def)
  next
    case False
    then have "- ?k + 1 < 0" using k1 by simp
    moreover have "- (- ?k + 1) = ?k - 1" by simp
    ultimately show ?thesis by (simp add: pow2_def)
  qed
  have a: "1 / 2 ^ nat ?k \<le> x"
    using hi assms by (simp add: field_simps)
  have c: "x < 1 / 2 ^ nat (?k - 1)"
    using lo assms by (simp add: field_simps)
  show ?thesis using False a c p1 p2 by (simp add: ilog2_def)
qed

lemma roundEven_nonneg: "0 \<le> x \<Longrightarrow> 0 \<le> roundEven x"
  by (auto simp: roundEven_def Let_def)

text \<open>Rounding keeps the sign: a number that is not negative is not rounded below zero.\<close>

lemma fl_nonneg:
  assumes "0 \<le> x"
  shows "fl x = PosInf \<or> (\<exists>y. fl x = Fin y \<and> 0 \<le> y)"
proof (cases "x = 0")
  case True
  then show ?thesis by (simp add: fl_def)
next
  case False
  let ?ulp = "pow2 (max (ilog2 \<bar>x\<bar>) (- 1022) - 52)"
  have "0 \<le> x / ?ulp" using assms pow2_pos [of "max (ilog2 \<bar>x\<bar>) (- 1022) - 52"] by simp
  then have "0 \<le> roundEven (x / ?ulp)" by (rule roundEven_nonneg)
  then have "0 \<le> of_int (roundEven (x / ?ulp)) * ?ulp"
    using pow2_pos [of "max (ilog2 \<bar>x\<bar>) (- 1022) - 52"] by simp
  then show ?thesis using False assms by (simp add: fl_def Let_def)
qed

lemma priceChangePercent_rise:
  assumes "0 < b" and "b \<le> c"
  shows "priceChangePercent c b = PosInf \<or> (\<exists>y. priceChangePercent c b = Fin y \<and> 0 \<le> y)"
proof -
  have s: "js_sub c b = PosInf \<or> (\<exists>y. js_sub c b = Fin y \<and> 0 \<le> y)"
    unfolding js_sub_def using assms(2) by (intro fl_nonneg) simp
  have d: "js_div (js_sub c b) b = PosInf \<or> (\<exists>y. js_div (js_sub c b) b = Fin y \<and> 0 \<le> y)"
  proof -
    from s show ?thesis
    proof
      assume "js_sub c b = PosInf"
      then show ?thesis using assms(1) by simp
    next
      assume "\<exists>y. js_sub c b = Fin y \<and> 0 \<le> y"
      then obtain y where y: "js_sub c b = Fin y" "0 \<le> y" by blast
      have "0 \<le> y / b" using y(2) assms(1) by simp
      from fl_nonneg [OF this] show ?thesis using y(1) assms(1) by simp
    qed
  qed
  from d show ?thesis
  proof
    assume "js_div (js_sub c b) b = PosInf"
    then show ?thesis by (simp add: priceChangePercent_def)
  next
    assume "\<exists>y. js_div (js_sub c b) b = Fin y \<and> 0 \<le> y"
    then obtain y where y: "js_div (js_sub c b) b = Fin y" "0 \<le> y" by blast
    have "0 \<le> y * 100" using y(2) by simp
    from fl_nonneg [OF this] show ?thesis using y(1) by (simp add: priceChangePercent_def)
  qed
qed

lemma priceChangePercent_rise_no_trigger:
  assumes "0 < b" and "b \<le> c" and "0 < t"
  shows "\<not> js_le (priceChangePercent c b) (- t)"
  using priceChangePercent_rise [OF assms(1,2)] assms(3) by auto

lemma priceChangePercent_same:
  "c \<noteq> 0 \<Longrightarrow> priceChangePercent c c = Fin 0"
  by (simp add: priceChangePercent_def js_sub_def fl_def)

text \<open>The percentage changes of the scenarios, computed.\<close>

lemma pct_94_100: "priceChangePercent 94 100 = Fin (- 6)" by code_simp
lemma pct_95_100: "priceChangePercent 95 100 = Fin (- 5)" by code_simp
lemma pct_96_100: "priceChangePercent 96 100 = Fin (- 4)" by code_simp
lemma pct_99_100: "priceChangePercent 99 100 = Fin (- 1)" by code_simp
lemma pct_101_100: "priceChangePercent 101 100 = Fin 1" by code_simp
lemma pct_10_20: "priceChangePercent 10 20 = Fin (- 50)" by code_simp
lemma pct_71_100: "priceChangePercent 71 100 = Fin (- (29 - 1 / 2 ^ 48))" by code_simp

lemmas pct = pct_94_100 pct_95_100 pct_96_100 pct_99_100 pct_101_100 pct_10_20 pct_71_100

section \<open>Properties of the queries and of the decision\<close>

lemma isoTextGe_within:
  assumes "now - 60000 * int m \<le> t"
  shows "isoTextGe t (cutoff now m)"
proof -
  have "(now - 60000 * int m) div 1000 \<le> t div 1000"
    using assms by (rule zdiv_mono1) simp
  moreover have "(now - 60000 * int m) div 1000 = now div 1000 - 60 * int m"
  proof -
    have "now - 60000 * int m = now + (- 60 * int m) * 1000" by simp
    then show ?thesis
      by (metis div_mult_self1 zero_neq_numeral add.commute uminus_add_conv_diff
            mult_minus_left)
  qed
  ultimately have "cutoff now m \<le> t div 1000"
    by (simp add: cutoff_def sqlNow_def)
  then have "cutoff now m div 86400 \<le> (t div 1000) div 86400"
    by (rule zdiv_mono1) simp
  moreover have "(t div 1000) div 86400 = t div 86400000"
    by (simp add: div_mult2_eq[symmetric])
  ultimately show ?thesis by (simp add: isoTextGe_def)
qed

lemma set_getRecentAlertLogs:
  "set (getRecentAlertLogs st now aid m) =
     {l \<in> set (alert_logs st). alertConfigId l = aid \<and> isoTextGe (triggeredAt l) (cutoff now m)}"
  by (auto simp: getRecentAlertLogs_def)

lemma set_getPriceHistory:
  "set (getPriceHistory st now cid tf) =
     {r \<in> set (price_history st). ph_cryptoId r = cid \<and> cutoff now tf \<le> timestamp r}"
  by (auto simp: getPriceHistory_def sqlTextGe_def)

lemma last_getPriceHistory_least:
  assumes "r \<in> set (getPriceHistory st now cid tf)"
  shows "timestamp (last (getPriceHistory st now cid tf)) \<le> timestamp r"
proof -
  let ?xs = "sort_key timestamp
       (filter (\<lambda>r. ph_cryptoId r = cid \<and> sqlTextGe (timestamp r) (cutoff now tf))
          (price_history st))"
  have r: "r \<in> set ?xs" using assms by (simp add: getPriceHistory_def)
  then have ne: "?xs \<noteq> []" by (metis empty_iff empty_set)
  have "sorted (map timestamp ?xs)" by simp
  then have "timestamp (hd ?xs) \<le> timestamp r" using ne r
    by (cases ?xs) auto
  then show ?thesis using ne by (simp add: getPriceHistory_def last_rev)
qed

lemma shouldTriggerAlert_decision:
  assumes "\<not> cooldownQuery_throws e (alert_id a)"
    and "getRecentAlertLogs st now (alert_id a) (ALERT_COOLDOWN_MINUTES e) = []"
    and "\<not> historyQuery_throws e (alert_id a)"
    and "getPriceHistory st (clock_historyQuery e (alert_id a)) (cryptoId a)
           (timeframeMinutes a) \<noteq> []"
  shows "fst (shouldTriggerAlert e st now a c) =
           js_le (priceChangePercent c
                    (price (last (getPriceHistory st (clock_historyQuery e (alert_id a))
                                    (cryptoId a) (timeframeMinutes a)))))
                 (- thresholdPercentage a)"
  using assms by (simp add: shouldTriggerAlert_def Let_def)

lemma shouldTriggerAlert_first_event:
  "\<exists>evs. snd (shouldTriggerAlert e st now a c) =
     Call_getRecentAlertLogs (alert_id a) (ALERT_COOLDOWN_MINUTES e) # evs"
  by (simp add: shouldTriggerAlert_def Let_def)

text \<open>
  The comparison of the two texts keeps an entry among the recent ones for longer than
  the minutes asked for: an entry written at midnight is still returned six hours later
  for a cooldown of thirty minutes, and no longer once the cutoff has reached the next
  day.
\<close>

lemma cooldown_until_next_day:
  "getRecentAlertLogs (storeA\<lparr>alert_logs := [firedAt 0]\<rparr>) 21600000 1 30 = [firedAt 0]
   \<and> getRecentAlertLogs (storeA\<lparr>alert_logs := [firedAt 0]\<rparr>) 88200000 1 30 = []"
  by (simp add: scen)

section \<open>Properties of triggerAlert and of the evaluation of one alert\<close>

text \<open>
  \<open>createAlertLog\<close> throws for every argument, so \<open>triggerAlert\<close> always ends in its
  handler after the attempt to write, and the evaluation of an alert never changes the
  store.
\<close>

lemma createAlertLog_throws: "createAlertLog st aid t pc old new snt = None"
  by (simp add: createAlertLog_def)

lemma triggerAlert_eq:
  "triggerAlert e st now a pc old new =
     (st, [Log Info (Triggering_alert (alert_id a) (userId a)),
           Call_createAlertLog (alert_id a) now pc old new False,
           Log Error Error_triggering_alert])"
  by (simp add: triggerAlert_def createAlertLog_throws Let_def)

lemma checkAlert_store: "fst (checkAlert e st now a c) = st"
  by (simp add: checkAlert_def Let_def case_prod_beta triggerAlert_eq)

lemma checkAlert_events:
  "snd (checkAlert e st now a c) =
     snd (shouldTriggerAlert e st now a c) @
     (if fst (shouldTriggerAlert e st now a c)
      then Call_getPriceHistory (cryptoId a) (timeframeMinutes a) #
           (if historyRequery_throws e (alert_id a)
            then [Log Error (Error_checking_alert (alert_id a))]
            else if getPriceHistory st (clock_historyRequery e (alert_id a)) (cryptoId a)
                      (timeframeMinutes a) = []
            then []
            else [Log Info (Triggering_alert (alert_id a) (userId a)),
                  Call_createAlertLog (alert_id a) (clock_newDate e (alert_id a))
                    (priceChangePercent c
                       (price (last (getPriceHistory st (clock_historyRequery e (alert_id a))
                                       (cryptoId a) (timeframeMinutes a)))))
                    (price (last (getPriceHistory st (clock_historyRequery e (alert_id a))
                                    (cryptoId a) (timeframeMinutes a))))
                    c False,
                  Log Error Error_triggering_alert])
      else [])"
  by (simp add: checkAlert_def Let_def case_prod_beta triggerAlert_eq)

lemma checkAlert_first_event:
  "\<exists>evs. snd (checkAlert e st now a c) =
     Call_getRecentAlertLogs (alert_id a) (ALERT_COOLDOWN_MINUTES e) # evs"
  using shouldTriggerAlert_first_event [of e st now a c]
  by (auto simp: checkAlert_events)

lemma shouldTriggerAlert_no_send:
  "Call_sendMessage t m \<notin> set (snd (shouldTriggerAlert e st now a c))"
  by (simp add: shouldTriggerAlert_def Let_def)

lemma checkAlert_no_send:
  "Call_sendMessage t m \<notin> set (snd (checkAlert e st now a c))"
  using shouldTriggerAlert_no_send [of t m e st now a c]
  by (simp add: checkAlert_events)

section \<open>The loops over the alerts and over the assets\<close>

lemma checkAlerts_eq:
  "checkAlerts e st c as =
     (st, concat (map (\<lambda>a. snd (checkAlert e st (clock_cooldownQuery e (alert_id a)) a c)) as))"
proof (induction as)
  case Nil
  show ?case by simp
next
  case (Cons x xs)
  show ?case using Cons.IH by (simp add: case_prod_beta checkAlert_store)
qed

lemma checkGroups_eq:
  "checkGroups e st prices groups =
     (st, concat (map (\<lambda>(cid, alerts).
                         case map_of prices cid of
                           None \<Rightarrow> [Log Warn (No_current_price_available cid)]
                         | Some currentPrice \<Rightarrow>
                             if currentPrice = 0
                             then [Log Warn (No_current_price_available cid)]
                             else concat (map (\<lambda>a. snd (checkAlert e st
                                                          (clock_cooldownQuery e (alert_id a))
                                                          a currentPrice)) alerts))
                      groups))"
proof (induction groups)
  case Nil
  show ?case by simp
next
  case (Cons g gs)
  obtain cid alerts where g: "g = (cid, alerts)" by (cases g)
  show ?case using Cons.IH g
    by (simp add: case_prod_beta checkAlerts_eq split: option.splits)
qed

section \<open>Properties of the grouping\<close>

lemma members_insertAlert:
  "(\<Union>(k, as) \<in> set (insertAlert b g). {k} \<times> set as)
     = insert (cryptoId b, b) (\<Union>(k, as) \<in> set g. {k} \<times> set as)"
proof (induction g)
  case Nil
  show ?case by simp
next
  case (Cons x g)
  obtain k as where x: "x = (k, as)" by (cases x)
  show ?case
  proof (cases "k = cryptoId b")
    case True
    have "{k} \<times> set (as @ [b]) = insert (cryptoId b, b) ({k} \<times> set as)"
      using True by auto
    then show ?thesis using True x by simp
  next
    case False
    then show ?thesis using x Cons.IH by simp
  qed
qed

lemma members_foldl_insertAlert:
  "(\<Union>(k, as) \<in> set (foldl (\<lambda>g a. insertAlert a g) g xs). {k} \<times> set as)
     = (\<lambda>a. (cryptoId a, a)) ` set xs \<union> (\<Union>(k, as) \<in> set g. {k} \<times> set as)"
proof (induction xs arbitrary: g)
  case Nil
  show ?case by simp
next
  case (Cons x xs)
  show ?case
    unfolding foldl_Cons Cons.IH members_insertAlert by auto
qed

lemma members_alertsByCrypto:
  "(\<Union>(k, as) \<in> set (alertsByCrypto xs). {k} \<times> set as) = (\<lambda>a. (cryptoId a, a)) ` set xs"
  using members_foldl_insertAlert [of "[]" xs] by (simp add: alertsByCrypto_def)

lemma alertsByCrypto_has:
  assumes "a \<in> set xs"
  shows "\<exists>as. (cryptoId a, as) \<in> set (alertsByCrypto xs) \<and> a \<in> set as"
proof -
  have "(cryptoId a, a) \<in> (\<Union>(k, as) \<in> set (alertsByCrypto xs). {k} \<times> set as)"
    unfolding members_alertsByCrypto using assms by blast
  then show ?thesis by auto
qed

lemma alertsByCrypto_from:
  assumes "(k, as) \<in> set (alertsByCrypto xs)" and "x \<in> set as"
  shows "x \<in> set xs \<and> k = cryptoId x"
proof -
  have "(k, x) \<in> (\<Union>(k, as) \<in> set (alertsByCrypto xs). {k} \<times> set as)"
    using assms by auto
  then show ?thesis unfolding members_alertsByCrypto by auto
qed

section \<open>Properties of the saving loop\<close>

lemma savePrices_events:
  assumes "ev \<in> set (snd (snd (savePrices e st ps)))"
  shows "\<exists>k p. ev = Call_savePriceHistory k p"
  using assms
proof (induction ps arbitrary: st)
  case Nil
  then show ?case by simp
next
  case (Cons x xs)
  obtain k p where x: "x = (k, p)" by (cases x)
  show ?case using Cons.prems Cons.IH x
    by (auto simp: case_prod_beta split: if_splits option.splits)
qed

lemma savePriceHistory_Some:
  assumes "savePriceHistory st t cid p = Some st1"
  shows "cid \<in> set (cryptocurrencies st)"
    and "st1 = st\<lparr>price_history := price_history st @
                   [\<lparr>ph_id = nextId (map ph_id (price_history st)), ph_cryptoId = cid,
                     price = p, timestamp = sqlNow t\<rparr>]\<rparr>"
  using assms by (auto simp: savePriceHistory_def split: if_splits)

lemma savePrices_history:
  assumes "fst (savePrices e st ps)"
  shows "\<exists>news. fst (snd (savePrices e st ps))
                   = st\<lparr>price_history := price_history st @ news\<rparr>
           \<and> map (\<lambda>r. (ph_cryptoId r, price r)) news = ps
           \<and> (\<forall>r \<in> set news. timestamp r = sqlNow (clock_save e (ph_cryptoId r)))"
  using assms
proof (induction ps arbitrary: st)
  case Nil
  show ?case by simp
next
  case (Cons x xs)
  obtain k p where x: "x = (k, p)" by (cases x)
  have nt: "\<not> savePriceHistory_throws e k" using Cons.prems x by (auto split: if_splits)
  then obtain st1 where s1: "savePriceHistory st (clock_save e k) k p = Some st1"
    using Cons.prems x by (auto split: option.splits)
  let ?r = "\<lparr>ph_id = nextId (map ph_id (price_history st)), ph_cryptoId = k, price = p,
             timestamp = sqlNow (clock_save e k)\<rparr>"
  have st1: "st1 = st\<lparr>price_history := price_history st @ [?r]\<rparr>"
    using s1 by (rule savePriceHistory_Some(2))
  have eq: "savePrices e st (x # xs) =
              (fst (savePrices e st1 xs), fst (snd (savePrices e st1 xs)),
               Call_savePriceHistory k p # snd (snd (savePrices e st1 xs)))"
    using nt x s1 by (simp add: case_prod_beta)
  then have "fst (savePrices e st1 xs)" using Cons.prems by simp
  from Cons.IH [OF this] obtain news where
      n: "fst (snd (savePrices e st1 xs)) = st1\<lparr>price_history := price_history st1 @ news\<rparr>"
         "map (\<lambda>r. (ph_cryptoId r, price r)) news = xs"
         "\<forall>r \<in> set news. timestamp r = sqlNow (clock_save e (ph_cryptoId r))"
    by blast
  have "fst (snd (savePrices e st (x # xs)))
          = st\<lparr>price_history := price_history st @ (?r # news)\<rparr>
        \<and> map (\<lambda>r. (ph_cryptoId r, price r)) (?r # news) = x # xs
        \<and> (\<forall>r \<in> set (?r # news). timestamp r = sqlNow (clock_save e (ph_cryptoId r)))"
    using eq n x st1 by simp
  then show ?case by (rule exI)
qed

text \<open>
  The samples are recorded in the order of the answer until the first insert that throws;
  the samples after it are not recorded.
\<close>

lemma savePrices_until_throw:
  assumes "\<forall>k \<in> set (map fst before).
             \<not> savePriceHistory_throws e k \<and> k \<in> set (cryptocurrencies st)"
    and "savePriceHistory_throws e a \<or> a \<notin> set (cryptocurrencies st)"
  shows "\<not> fst (savePrices e st (before @ (a, p) # after))
       \<and> map (\<lambda>r. (ph_cryptoId r, price r))
           (price_history (fst (snd (savePrices e st (before @ (a, p) # after)))))
         = map (\<lambda>r. (ph_cryptoId r, price r)) (price_history st) @ before"
  using assms
proof (induction before arbitrary: st)
  case Nil
  then show ?case by (auto simp: savePriceHistory_def)
next
  case (Cons x xs)
  obtain k q where x: "x = (k, q)" by (cases x)
  have nk: "\<not> savePriceHistory_throws e k" "k \<in> set (cryptocurrencies st)"
    using Cons.prems(1) x by simp_all
  let ?st = "st\<lparr>price_history := price_history st @
                  [\<lparr>ph_id = nextId (map ph_id (price_history st)), ph_cryptoId = k,
                    price = q, timestamp = sqlNow (clock_save e k)\<rparr>]\<rparr>"
  have s1: "savePriceHistory st (clock_save e k) k q = Some ?st"
    using nk(2) by (simp add: savePriceHistory_def)
  have rest: "\<forall>k \<in> set (map fst xs).
                \<not> savePriceHistory_throws e k \<and> k \<in> set (cryptocurrencies ?st)"
    using Cons.prems(1) by simp
  have a: "savePriceHistory_throws e a \<or> a \<notin> set (cryptocurrencies ?st)"
    using Cons.prems(2) by simp
  note ih = Cons.IH [OF rest a]
  show ?case using ih nk x s1
    by (simp add: case_prod_beta)
qed

section \<open>The tick, when it reaches the loop over the alerts\<close>

lemma checkPriceChanges_reaches_loop:
  assumes "\<not> getAllActiveAlerts_throws e"
    and "getAllActiveAlerts st \<noteq> []"
    and "getCurrentPrices e (map fst (alertsByCrypto (getAllActiveAlerts st))) = Some prices"
    and "fst (savePrices e st prices)"
  shows "checkPriceChanges e st =
           (fst (snd (savePrices e st prices)),
            [Log Info Starting_price_change_check, Call_getAllActiveAlerts,
             Log Debug (Checking_prices_for (length (alertsByCrypto (getAllActiveAlerts st)))),
             Call_getCurrentPrices (map fst (alertsByCrypto (getAllActiveAlerts st)))]
            @ snd (snd (savePrices e st prices))
            @ snd (checkGroups e (fst (snd (savePrices e st prices))) prices
                     (alertsByCrypto (getAllActiveAlerts st)))
            @ [Log Info Price_change_check_completed])"
  using assms
  by (simp add: checkPriceChanges_def Let_def case_prod_beta checkGroups_eq)

section \<open>The evaluation of each alert, inside the loops\<close>

lemma concat_map_split:
  assumes "a \<in> set xs"
  shows "\<exists>pre post. concat (map f xs) = pre @ f a @ post"
proof -
  from assms obtain ys zs where "xs = ys @ a # zs" by (auto simp: in_set_conv_decomp)
  then have "concat (map f xs) = concat (map f ys) @ f a @ concat (map f zs)" by simp
  then show ?thesis by blast
qed

lemma checkGroups_block:
  assumes "(cid, alerts) \<in> set groups" and "a \<in> set alerts"
    and "map_of prices cid = Some c" and "c \<noteq> 0"
  shows "\<exists>pre post. snd (checkGroups e st prices groups) =
           pre @ snd (checkAlert e st (clock_cooldownQuery e (alert_id a)) a c) @ post"
proof -
  let ?g = "\<lambda>(cid, alerts).
              case map_of prices cid of
                None \<Rightarrow> [Log Warn (No_current_price_available cid)]
              | Some currentPrice \<Rightarrow>
                  if currentPrice = 0 then [Log Warn (No_current_price_available cid)]
                  else concat (map (\<lambda>a. snd (checkAlert e st
                                               (clock_cooldownQuery e (alert_id a))
                                               a currentPrice)) alerts)"
  let ?f = "\<lambda>a. snd (checkAlert e st (clock_cooldownQuery e (alert_id a)) a c)"
  from concat_map_split [OF assms(1), of ?g]
  obtain p1 q1 where 1: "concat (map ?g groups) = p1 @ ?g (cid, alerts) @ q1" by blast
  from concat_map_split [OF assms(2), of ?f]
  obtain p2 q2 where 2: "concat (map ?f alerts) = p2 @ ?f a @ q2" by blast
  have "?g (cid, alerts) = concat (map ?f alerts)" using assms(3,4) by simp
  then have "snd (checkGroups e st prices groups) = (p1 @ p2) @ ?f a @ (q2 @ q1)"
    using 1 2 by (simp add: checkGroups_eq)
  then show ?thesis by blast
qed

section \<open>What the events of an evaluation are about\<close>

lemma checkAlert_about:
  assumes "ev \<in> set (snd (checkAlert e st now a c))"
    and "(\<exists>m. ev = Call_getRecentAlertLogs i m)
         \<or> (\<exists>t pc old new s. ev = Call_createAlertLog i t pc old new s)
         \<or> (\<exists>pc. ev = Log Info (Alert_should_trigger i pc))
         \<or> (\<exists>u. ev = Log Info (Triggering_alert i u))"
  shows "i = alert_id a"
  using assms
  by (auto simp: checkAlert_events shouldTriggerAlert_def Let_def split: if_splits)

lemma checkGroups_event_cases:
  assumes "ev \<in> set (snd (checkGroups e st prices groups))"
  shows "(\<exists>k as. (k, as) \<in> set groups
            \<and> (map_of prices k = None \<or> map_of prices k = Some 0)
            \<and> ev = Log Warn (No_current_price_available k))
       \<or> (\<exists>k as a c. (k, as) \<in> set groups \<and> a \<in> set as
            \<and> map_of prices k = Some c \<and> c \<noteq> 0
            \<and> ev \<in> set (snd (checkAlert e st (clock_cooldownQuery e (alert_id a)) a c)))"
proof -
  let ?f = "\<lambda>(cid, alerts).
              case map_of prices cid of
                None \<Rightarrow> [Log Warn (No_current_price_available cid)]
              | Some currentPrice \<Rightarrow>
                  if currentPrice = 0
                  then [Log Warn (No_current_price_available cid)]
                  else concat (map (\<lambda>a. snd (checkAlert e st
                                               (clock_cooldownQuery e (alert_id a))
                                               a currentPrice)) alerts)"
  from assms obtain g where g: "g \<in> set groups" "ev \<in> set (?f g)"
    unfolding checkGroups_eq by auto
  obtain k as where kas: "g = (k, as)" by (cases g)
  show ?thesis
  proof (cases "map_of prices k")
    case None
    then have "ev = Log Warn (No_current_price_available k)" using g(2) kas by simp
    then show ?thesis using g(1) kas None by blast
  next
    case (Some c)
    show ?thesis
    proof (cases "c = 0")
      case True
      then have "ev = Log Warn (No_current_price_available k)" using g(2) kas Some by simp
      then show ?thesis using g(1) kas Some True by blast
    next
      case False
      then obtain a where "a \<in> set as"
          "ev \<in> set (snd (checkAlert e st (clock_cooldownQuery e (alert_id a)) a c))"
        using g(2) kas Some by auto
      then show ?thesis using g(1) kas Some False by blast
    qed
  qed
qed

lemma checkGroups_warns:
  assumes "(k, as) \<in> set groups"
    and "map_of prices k = None \<or> map_of prices k = Some 0"
  shows "Log Warn (No_current_price_available k)
           \<in> set (snd (checkGroups e st prices groups))"
  unfolding checkGroups_eq using assms by (auto intro!: bexI [of _ "(k, as)"])

section \<open>The sample of the tick and the window of the query\<close>

lemma recorded_in_window:
  assumes "r \<in> set (price_history st)" and "ph_cryptoId r = cid"
    and "cutoff now tf \<le> timestamp r"
  shows "getPriceHistory st now cid tf \<noteq> []"
proof -
  have "r \<in> set (getPriceHistory st now cid tf)"
    using assms by (simp add: set_getPriceHistory)
  then show ?thesis by (metis empty_iff empty_set)
qed

lemma savePrices_records:
  assumes "fst (savePrices e st prices)" and "map_of prices k = Some c"
  shows "\<exists>r \<in> set (price_history (fst (snd (savePrices e st prices)))).
           ph_cryptoId r = k \<and> timestamp r = sqlNow (clock_save e k)"
proof -
  from savePrices_history [OF assms(1)] obtain news where
      n: "fst (snd (savePrices e st prices)) = st\<lparr>price_history := price_history st @ news\<rparr>"
         "map (\<lambda>r. (ph_cryptoId r, price r)) news = prices"
         "\<forall>r \<in> set news. timestamp r = sqlNow (clock_save e (ph_cryptoId r))"
    by blast
  have "(k, c) \<in> set prices" using assms(2) by (rule map_of_SomeD)
  then have "(k, c) \<in> (\<lambda>r. (ph_cryptoId r, price r)) ` set news"
    using n(2) by (metis set_map)
  then obtain r where "r \<in> set news" "ph_cryptoId r = k" by auto
  then show ?thesis using n(1,3) by auto
qed

lemma checkAlert_history_line:
  assumes "Log Debug (No_price_history_available k) \<in> set (snd (checkAlert e st now a c))"
  shows "getPriceHistory st (clock_historyQuery e (alert_id a)) (cryptoId a)
           (timeframeMinutes a) = []"
  using assms
  by (auto simp: checkAlert_events shouldTriggerAlert_def Let_def split: if_splits)

lemma filter_key_distinct:
  assumes "distinct (map fst ps)" and "map_of ps k = Some c"
  shows "filter (\<lambda>kp. fst kp = k) ps = [(k, c)]"
  using assms
proof (induction ps)
  case Nil
  then show ?case by simp
next
  case (Cons x xs)
  show ?case
  proof (cases "fst x = k")
    case True
    then have "k \<notin> fst ` set xs" using Cons.prems(1) by auto
    then have "filter (\<lambda>kp. fst kp = k) xs = []"
      by (auto simp: filter_empty_conv)
    moreover have "x = (k, c)" using True Cons.prems(2) by (cases x) simp
    ultimately show ?thesis by simp
  next
    case False
    then have "map_of xs k = Some c" using Cons.prems(2) by (cases x) (simp split: if_splits)
    then show ?thesis using Cons.IH Cons.prems(1) False by simp
  qed
qed

lemma only_current_sample:
  assumes "fst (savePrices e st prices)"
    and "distinct (map fst prices)"
    and "map_of prices cid = Some c"
    and "\<forall>r \<in> set (price_history st). ph_cryptoId r = cid \<longrightarrow> timestamp r < cutoff now tf"
    and "cutoff now tf \<le> sqlNow (clock_save e cid)"
  shows "map price (getPriceHistory (fst (snd (savePrices e st prices))) now cid tf) = [c]"
proof -
  from savePrices_history [OF assms(1)] obtain news where
      n: "fst (snd (savePrices e st prices)) = st\<lparr>price_history := price_history st @ news\<rparr>"
         "map (\<lambda>r. (ph_cryptoId r, price r)) news = prices"
         "\<forall>r \<in> set news. timestamp r = sqlNow (clock_save e (ph_cryptoId r))"
    by blast
  let ?P = "\<lambda>r. ph_cryptoId r = cid \<and> sqlTextGe (timestamp r) (cutoff now tf)"
  have old: "filter ?P (price_history st) = []"
    using assms(4) by (auto simp: filter_empty_conv sqlTextGe_def)
  have new: "filter ?P news = filter (\<lambda>r. ph_cryptoId r = cid) news"
    using n(3) assms(5) by (intro filter_cong) (auto simp: sqlTextGe_def)
  have "map (\<lambda>r. (ph_cryptoId r, price r)) (filter (\<lambda>r. ph_cryptoId r = cid) news)
          = filter (\<lambda>kp. fst kp = cid) (map (\<lambda>r. (ph_cryptoId r, price r)) news)"
    by (simp add: filter_map comp_def)
  also have "\<dots> = [(cid, c)]"
    unfolding n(2) using assms(2,3) by (rule filter_key_distinct)
  finally obtain r where r: "filter (\<lambda>r. ph_cryptoId r = cid) news = [r]" "price r = c"
    by auto
  have "getPriceHistory (fst (snd (savePrices e st prices))) now cid tf = [r]"
    using old new r(1) by (simp add: getPriceHistory_def n(1))
  then show ?thesis using r(2) by simp
qed

lemma checkPriceChanges_history_line:
  assumes "Log Debug (No_price_history_available k) \<in> set (snd (checkPriceChanges e st))"
  shows "\<exists>a \<in> set (alert_configs st). isActive a
           \<and> sqlNow (clock_save e (cryptoId a))
               < cutoff (clock_historyQuery e (alert_id a)) (timeframeMinutes a)"
proof -
  let ?groups = "alertsByCrypto (getAllActiveAlerts st)"
  let ?ev = "Log Debug (No_price_history_available k)"
  have ns: "?ev \<notin> set (snd (snd (savePrices e st ps)))" for ps
    using savePrices_events by blast
  from assms ns obtain prices where
      p: "getCurrentPrices e (map fst ?groups) = Some prices"
      and ok: "fst (savePrices e st prices)"
      and g: "?ev \<in> set (snd (checkGroups e (fst (snd (savePrices e st prices))) prices
                                ?groups))"
    by (auto simp: checkPriceChanges_def Let_def case_prod_beta
          split: if_splits option.splits)
  let ?st1 = "fst (snd (savePrices e st prices))"
  from checkGroups_event_cases [OF g] obtain k' as a c where
      a: "(k', as) \<in> set ?groups" "a \<in> set as" "map_of prices k' = Some c"
         "?ev \<in> set (snd (checkAlert e ?st1 (clock_cooldownQuery e (alert_id a)) a c))"
    by auto
  from alertsByCrypto_from [OF a(1,2)] have act: "a \<in> set (getAllActiveAlerts st)"
      and key: "k' = cryptoId a"
    by simp_all
  from checkAlert_history_line [OF a(4)]
  have empty: "getPriceHistory ?st1 (clock_historyQuery e (alert_id a)) (cryptoId a)
                 (timeframeMinutes a) = []" .
  from savePrices_records [OF ok a(3)] key obtain r where
      r: "r \<in> set (price_history ?st1)" "ph_cryptoId r = cryptoId a"
         "timestamp r = sqlNow (clock_save e (cryptoId a))"
    by auto
  have "\<not> cutoff (clock_historyQuery e (alert_id a)) (timeframeMinutes a) \<le> timestamp r"
    using recorded_in_window [OF r(1,2)] empty by blast
  then have "sqlNow (clock_save e (cryptoId a))
               < cutoff (clock_historyQuery e (alert_id a)) (timeframeMinutes a)"
    using r(3) by simp
  then show ?thesis using act by (auto simp: getAllActiveAlerts_def)
qed

section \<open>What a tick never does\<close>

lemma savePrices_alert_logs:
  "alert_logs (fst (snd (savePrices e st ps))) = alert_logs st"
proof (induction ps arbitrary: st)
  case Nil
  show ?case by simp
next
  case (Cons x xs)
  obtain k p where x: "x = (k, p)" by (cases x)
  show ?case
  proof (cases "savePriceHistory st (clock_save e k) k p")
    case None
    then show ?thesis using x by simp
  next
    case (Some st1)
    then have "alert_logs st1 = alert_logs st"
      by (auto simp: savePriceHistory_def split: if_splits)
    then show ?thesis using x Some Cons.IH [of st1] by (simp add: case_prod_beta)
  qed
qed

lemma checkPriceChanges_alert_logs:
  "alert_logs (fst (checkPriceChanges e st)) = alert_logs st"
  by (simp add: checkPriceChanges_def Let_def case_prod_beta checkGroups_eq
        savePrices_alert_logs split: option.splits)

lemma checkPriceChanges_no_send:
  "Call_sendMessage t m \<notin> set (snd (checkPriceChanges e st))"
proof
  let ?ev = "Call_sendMessage t m"
  let ?groups = "alertsByCrypto (getAllActiveAlerts st)"
  assume a: "?ev \<in> set (snd (checkPriceChanges e st))"
  have ns: "?ev \<notin> set (snd (snd (savePrices e st ps)))" for ps
    using savePrices_events by blast
  from a ns obtain prices where
      g: "?ev \<in> set (snd (checkGroups e (fst (snd (savePrices e st prices))) prices ?groups))"
    by (auto simp: checkPriceChanges_def Let_def case_prod_beta
          split: if_splits option.splits)
  from checkGroups_event_cases [OF g] show False
    using checkAlert_no_send by blast
qed

section \<open>The trigger decision\<close>

text \<open>
  Claim C1, as stated, fails: the baseline is 100, the current price 71 and the threshold
  29, so that \<open>(71 - 100) / 100 * 100\<close> is exactly \<open>-29\<close>, a drop of exactly the
  threshold. The alert is not in cooldown and the baseline is in its window, and the
  decision is \<open>false\<close>: in doubles the quotient \<open>-29 / 100\<close> is rounded and its product
  with 100 is \<open>-28.999999999999996\<close> (lemma \<open>pct_71_100\<close>).
\<close>

theorem C1_counterexample:
  "getRecentAlertLogs storeA 3600000 (alert_id btcAlert29) (ALERT_COOLDOWN_MINUTES (quiet 30 []))
     = []
   \<and> price (last (getPriceHistory storeA (clock_historyQuery (quiet 30 []) (alert_id btcAlert29))
                    (cryptoId btcAlert29) (timeframeMinutes btcAlert29))) = 100
   \<and> ((71::rat) - 100) / 100 * 100 \<le> - thresholdPercentage btcAlert29
   \<and> \<not> fst (shouldTriggerAlert (quiet 30 []) storeA 3600000 btcAlert29 71)"
  by (simp add: shouldTriggerAlert_def Let_def scen btcAlert29_def pct)

text \<open>
  Claim C1, amended. An alert that is not in cooldown and has a sample in its window
  triggers exactly when the percentage change as the code computes it, the difference,
  the quotient and the product each rounded to the nearest double, is at most minus its
  threshold. A rise, from a positive baseline and for a positive threshold, never
  triggers. When the three operations are exact, the decision is the comparison of
  \<open>(currentPrice - baselinePrice) / baselinePrice * 100\<close> with minus the threshold, so
  that a drop of exactly the threshold then triggers.
\<close>

theorem C1_trigger_iff_computed_change_at_most_minus_threshold:
  assumes "\<not> cooldownQuery_throws e (alert_id a)"
    and "getRecentAlertLogs st now (alert_id a) (ALERT_COOLDOWN_MINUTES e) = []"
    and "\<not> historyQuery_throws e (alert_id a)"
    and "getPriceHistory st (clock_historyQuery e (alert_id a)) (cryptoId a)
           (timeframeMinutes a) \<noteq> []"
    and "baselinePrice = price (last (getPriceHistory st (clock_historyQuery e (alert_id a))
                                       (cryptoId a) (timeframeMinutes a)))"
  shows "(fst (shouldTriggerAlert e st now a currentPrice) \<longleftrightarrow>
            js_le (js_times (js_div (js_sub currentPrice baselinePrice) baselinePrice) 100)
              (- thresholdPercentage a))
       \<and> (0 < baselinePrice \<and> baselinePrice \<le> currentPrice \<and> 0 < thresholdPercentage a
            \<longrightarrow> \<not> fst (shouldTriggerAlert e st now a currentPrice))
       \<and> (js_sub currentPrice baselinePrice = Fin (currentPrice - baselinePrice)
          \<and> js_div (Fin (currentPrice - baselinePrice)) baselinePrice
              = Fin ((currentPrice - baselinePrice) / baselinePrice)
          \<and> js_times (Fin ((currentPrice - baselinePrice) / baselinePrice)) 100
              = Fin ((currentPrice - baselinePrice) / baselinePrice * 100)
            \<longrightarrow> (fst (shouldTriggerAlert e st now a currentPrice) \<longleftrightarrow>
                   (currentPrice - baselinePrice) / baselinePrice * 100
                     \<le> - thresholdPercentage a))"
proof -
  have d: "fst (shouldTriggerAlert e st now a currentPrice) =
             js_le (priceChangePercent currentPrice baselinePrice) (- thresholdPercentage a)"
    using assms shouldTriggerAlert_decision by simp
  have rise: "\<not> fst (shouldTriggerAlert e st now a currentPrice)"
    if "0 < baselinePrice \<and> baselinePrice \<le> currentPrice \<and> 0 < thresholdPercentage a"
    using that d priceChangePercent_rise_no_trigger by simp
  show ?thesis
    using d rise by (auto simp: priceChangePercent_def)
qed

text \<open>
  A baseline of 100, a threshold of 5 and a window of 60 minutes: the prices 94 and 95
  trigger, 96 and 101 do not. With a threshold of 50 the price 50, an exact drop of the
  threshold computed without rounding error, triggers.
\<close>

theorem C1_witness:
  "fst (shouldTriggerAlert (quiet 30 []) storeA 3600000 btcAlert 94)
   \<and> fst (shouldTriggerAlert (quiet 30 []) storeA 3600000 btcAlert 95)
   \<and> \<not> fst (shouldTriggerAlert (quiet 30 []) storeA 3600000 btcAlert 96)
   \<and> \<not> fst (shouldTriggerAlert (quiet 30 []) storeA 3600000 btcAlert 101)
   \<and> fst (shouldTriggerAlert (quiet 30 []) storeA 3600000
            (btcAlert\<lparr>thresholdPercentage := 50\<rparr>) 50)"
proof -
  let ?e = "quiet 30 []"
  have h1: "\<not> cooldownQuery_throws ?e (alert_id (btcAlert\<lparr>thresholdPercentage := t\<rparr>))" for t
    by (simp add: scen)
  have h2: "getRecentAlertLogs storeA 3600000 (alert_id (btcAlert\<lparr>thresholdPercentage := t\<rparr>))
              (ALERT_COOLDOWN_MINUTES ?e) = []" for t
    by (simp add: scen)
  have h3: "\<not> historyQuery_throws ?e (alert_id (btcAlert\<lparr>thresholdPercentage := t\<rparr>))" for t
    by (simp add: scen)
  have h4: "getPriceHistory storeA
              (clock_historyQuery ?e (alert_id (btcAlert\<lparr>thresholdPercentage := t\<rparr>)))
              (cryptoId (btcAlert\<lparr>thresholdPercentage := t\<rparr>))
              (timeframeMinutes (btcAlert\<lparr>thresholdPercentage := t\<rparr>))
              = [sample 3 ''bitcoin'' 98 1800, sample 2 ''bitcoin'' 100 0]" for t
    by (simp add: scen)
  have h4': "getPriceHistory storeA
              (clock_historyQuery ?e (alert_id (btcAlert\<lparr>thresholdPercentage := t\<rparr>)))
              (cryptoId (btcAlert\<lparr>thresholdPercentage := t\<rparr>))
              (timeframeMinutes (btcAlert\<lparr>thresholdPercentage := t\<rparr>)) \<noteq> []" for t
    unfolding h4 by simp
  have h5: "(100::rat) = price (last (getPriceHistory storeA
              (clock_historyQuery ?e (alert_id (btcAlert\<lparr>thresholdPercentage := t\<rparr>)))
              (cryptoId (btcAlert\<lparr>thresholdPercentage := t\<rparr>))
              (timeframeMinutes (btcAlert\<lparr>thresholdPercentage := t\<rparr>))))" for t
    unfolding h4 by (simp add: sample_def)
  note t = C1_trigger_iff_computed_change_at_most_minus_threshold [OF h1 h2 h3 h4' h5]
  have b: "btcAlert\<lparr>thresholdPercentage := 5\<rparr> = btcAlert" by (simp add: btcAlert_def)
  have p: "js_times (js_div (js_sub c 100) 100) 100 = priceChangePercent c 100" for c
    by (simp add: priceChangePercent_def)
  have x: "js_sub 50 100 = Fin (50 - 100)" "js_div (Fin (50 - 100)) 100 = Fin ((50 - 100) / 100)"
    "js_times (Fin ((50 - 100) / 100)) 100 = Fin ((50 - 100) / 100 * 100)"
    by code_simp+
  have t94: "fst (shouldTriggerAlert ?e storeA 3600000 btcAlert 94)"
    using t [of 5 94, THEN conjunct1] unfolding b p pct by (simp add: btcAlert_def)
  have t95: "fst (shouldTriggerAlert ?e storeA 3600000 btcAlert 95)"
    using t [of 5 95, THEN conjunct1] unfolding b p pct by (simp add: btcAlert_def)
  have t96: "\<not> fst (shouldTriggerAlert ?e storeA 3600000 btcAlert 96)"
    using t [of 5 96, THEN conjunct1] unfolding b p pct by (simp add: btcAlert_def)
  have t101: "\<not> fst (shouldTriggerAlert ?e storeA 3600000 btcAlert 101)"
    using t [of 5 101, THEN conjunct2, THEN conjunct1] unfolding b by (simp add: btcAlert_def)
  have t50: "fst (shouldTriggerAlert ?e storeA 3600000 (btcAlert\<lparr>thresholdPercentage := 50\<rparr>) 50)"
    using t [of 50 50, THEN conjunct2, THEN conjunct2] x by (simp add: btcAlert_def)
  show ?thesis using t94 t95 t96 t101 t50 by simp
qed

section \<open>Cooldown\<close>

text \<open>
  Claim C2. When the log holds an entry of the alert whose trigger time is not before
  \<open>now - ALERT_COOLDOWN_MINUTES\<close>, the decision is \<open>false\<close> for every current price
  and every history, nothing is written or sent for the alert, and the only query for
  recent log entries asks with the one cooldown of the configuration, which does not
  depend on the alert.
\<close>

theorem C2_cooldown_suppresses_trigger:
  assumes "l \<in> set (alert_logs st)"
    and "alertConfigId l = alert_id a"
    and "now - 60000 * int (ALERT_COOLDOWN_MINUTES e) \<le> triggeredAt l"
  shows "\<not> fst (shouldTriggerAlert e st now a currentPrice)
       \<and> checkAlert e st now a currentPrice = (st, snd (shouldTriggerAlert e st now a currentPrice))
       \<and> Call_getRecentAlertLogs (alert_id a) (ALERT_COOLDOWN_MINUTES e)
            \<in> set (snd (shouldTriggerAlert e st now a currentPrice))
       \<and> (\<forall>i m. Call_getRecentAlertLogs i m
                   \<in> set (snd (shouldTriggerAlert e st now a currentPrice))
                 \<longrightarrow> i = alert_id a \<and> m = ALERT_COOLDOWN_MINUTES e)"
proof -
  have "isoTextGe (triggeredAt l) (cutoff now (ALERT_COOLDOWN_MINUTES e))"
    using assms(3) by (rule isoTextGe_within)
  then have "l \<in> set (getRecentAlertLogs st now (alert_id a) (ALERT_COOLDOWN_MINUTES e))"
    using assms(1,2) by (simp add: set_getRecentAlertLogs)
  then have ne: "getRecentAlertLogs st now (alert_id a) (ALERT_COOLDOWN_MINUTES e) \<noteq> []"
    by (metis empty_iff empty_set)
  have no: "\<not> fst (shouldTriggerAlert e st now a currentPrice)"
    using ne by (simp add: shouldTriggerAlert_def Let_def)
  have ca: "checkAlert e st now a currentPrice
              = (st, snd (shouldTriggerAlert e st now a currentPrice))"
    using no by (simp add: checkAlert_def case_prod_beta)
  have ev: "snd (shouldTriggerAlert e st now a currentPrice) =
              [Call_getRecentAlertLogs (alert_id a) (ALERT_COOLDOWN_MINUTES e),
               Log Error Error_checking_should_trigger]
          \<or> snd (shouldTriggerAlert e st now a currentPrice) =
              [Call_getRecentAlertLogs (alert_id a) (ALERT_COOLDOWN_MINUTES e),
               Log Debug (Alert_in_cooldown (alert_id a))]"
    using ne by (simp add: shouldTriggerAlert_def Let_def)
  show ?thesis using no ca ev by auto
qed

text \<open>
  An alert that fired ten minutes ago, with a cooldown of thirty minutes and the price
  fallen to half of the baseline.
\<close>

theorem C2_witness:
  "\<not> fst (shouldTriggerAlert (quiet 30 [])
            (storeA\<lparr>alert_logs := [firedAt 0]\<rparr>) 600000 btcAlert 50)"
proof -
  have h1: "firedAt 0 \<in> set (alert_logs (storeA\<lparr>alert_logs := [firedAt 0]\<rparr>))"
    by simp
  have h2: "alertConfigId (firedAt 0) = alert_id btcAlert"
    by (simp add: scen)
  have h3: "600000 - 60000 * int (ALERT_COOLDOWN_MINUTES (quiet 30 [])) \<le> triggeredAt (firedAt 0)"
    by (simp add: scen)
  from C2_cooldown_suppresses_trigger [OF h1 h2 h3, of 50]
  show ?thesis by simp
qed

section \<open>The baseline\<close>

text \<open>
  Claim C3. The history query returns exactly the stored samples of the alert's asset
  whose timestamp is not before the instant of the query minus the window. When there
  are such samples, the baseline of the percentage change is one of them, with a
  timestamp not after that of any other: the oldest sample in the window, never one
  older than the window. When there is none, the alert is skipped: the store is
  unchanged and the events are the two queries and one debug line, no trigger and no
  error.
\<close>

theorem C3_baseline_is_oldest_sample_in_window:
  assumes "\<not> cooldownQuery_throws e (alert_id a)"
    and "getRecentAlertLogs st now (alert_id a) (ALERT_COOLDOWN_MINUTES e) = []"
    and "\<not> historyQuery_throws e (alert_id a)"
    and "queryTime = clock_historyQuery e (alert_id a)"
    and "inWindow = {r \<in> set (price_history st).
                      ph_cryptoId r = cryptoId a
                      \<and> sqlNow queryTime - 60 * int (timeframeMinutes a) \<le> timestamp r}"
  shows "set (getPriceHistory st queryTime (cryptoId a) (timeframeMinutes a)) = inWindow
       \<and> (if inWindow = {}
          then checkAlert e st now a currentPrice =
                 (st, [Call_getRecentAlertLogs (alert_id a) (ALERT_COOLDOWN_MINUTES e),
                       Call_getPriceHistory (cryptoId a) (timeframeMinutes a),
                       Log Debug (No_price_history_available (cryptoId a))])
          else \<exists>baseline \<in> inWindow.
                 (\<forall>r \<in> inWindow. timestamp baseline \<le> timestamp r)
               \<and> baseline = last (getPriceHistory st queryTime (cryptoId a)
                                    (timeframeMinutes a))
               \<and> (fst (shouldTriggerAlert e st now a currentPrice) \<longleftrightarrow>
                    js_le (priceChangePercent currentPrice (price baseline))
                      (- thresholdPercentage a)))"
proof -
  let ?H = "getPriceHistory st queryTime (cryptoId a) (timeframeMinutes a)"
  have s: "set ?H = inWindow"
    unfolding assms(5) by (simp add: set_getPriceHistory cutoff_def)
  show ?thesis
  proof (cases "inWindow = {}")
    case True
    then have "?H = []" using s by simp
    then have "shouldTriggerAlert e st now a currentPrice =
                 (False, [Call_getRecentAlertLogs (alert_id a) (ALERT_COOLDOWN_MINUTES e),
                          Call_getPriceHistory (cryptoId a) (timeframeMinutes a),
                          Log Debug (No_price_history_available (cryptoId a))])"
      using assms(1-4) by (simp add: shouldTriggerAlert_def Let_def)
    then show ?thesis using True s by (simp add: checkAlert_def)
  next
    case False
    then have ne: "?H \<noteq> []" using s by auto
    then have m: "last ?H \<in> inWindow" using s last_in_set by blast
    have least: "\<forall>r \<in> inWindow. timestamp (last ?H) \<le> timestamp r"
      using s last_getPriceHistory_least by blast
    have d: "fst (shouldTriggerAlert e st now a currentPrice) =
               js_le (priceChangePercent currentPrice (price (last ?H)))
                 (- thresholdPercentage a)"
      using assms(1-3) ne unfolding assms(4) by (rule shouldTriggerAlert_decision)
    show ?thesis using False s m least d by auto
  qed
qed

text \<open>
  Samples at 100 (sixty minutes old) and 98 in the window and one at 120 before it: the
  baseline is 100. A day later no sample is in the window and the alert is skipped.
\<close>

theorem C3_witness:
  "set (getPriceHistory storeA 3600000 ''bitcoin'' 60)
     = {sample 2 ''bitcoin'' 100 0, sample 3 ''bitcoin'' 98 1800}
   \<and> last (getPriceHistory storeA 3600000 ''bitcoin'' 60) = sample 2 ''bitcoin'' 100 0
   \<and> fst (shouldTriggerAlert (quiet 30 []) storeA 3600000 btcAlert 94)
   \<and> checkAlert (quietAt 90000000 30 []) storeA 90000000 btcAlert 94 =
       (storeA, [Call_getRecentAlertLogs 1 30, Call_getPriceHistory ''bitcoin'' 60,
                 Log Debug (No_price_history_available ''bitcoin'')])"
proof -
  have h1: "\<not> cooldownQuery_throws (quietAt t 30 []) (alert_id btcAlert)" for t
    by (simp add: scen)
  have h2: "getRecentAlertLogs storeA t (alert_id btcAlert)
              (ALERT_COOLDOWN_MINUTES (quietAt t' 30 [])) = []" for t t'
    by (simp add: scen)
  have h3: "\<not> historyQuery_throws (quietAt t 30 []) (alert_id btcAlert)" for t
    by (simp add: scen)
  have h4: "t = clock_historyQuery (quietAt t 30 []) (alert_id btcAlert)" for t
    by (simp add: scen)
  have w1: "{sample 2 ''bitcoin'' 100 0, sample 3 ''bitcoin'' 98 1800}
              = {r \<in> set (price_history storeA).
                   ph_cryptoId r = cryptoId btcAlert
                   \<and> sqlNow 3600000 - 60 * int (timeframeMinutes btcAlert) \<le> timestamp r}"
    by (auto simp: scen)
  have w2: "{} = {r \<in> set (price_history storeA).
                   ph_cryptoId r = cryptoId btcAlert
                   \<and> sqlNow 90000000 - 60 * int (timeframeMinutes btcAlert) \<le> timestamp r}"
    by (auto simp: scen)
  have k: "cryptoId btcAlert = ''bitcoin''" "timeframeMinutes btcAlert = 60"
    "alert_id btcAlert = 1" "thresholdPercentage btcAlert = 5"
    by (simp_all add: btcAlert_def)
  have q: "quiet 30 [] = quietAt 3600000 30 []" by (simp add: quiet_def)
  have l: "last (getPriceHistory storeA 3600000 ''bitcoin'' 60) = sample 2 ''bitcoin'' 100 0"
    by (simp add: scen)
  note a = C3_baseline_is_oldest_sample_in_window [OF h1 h2 h3 h4 w1, of 3600000 94]
  note b = C3_baseline_is_oldest_sample_in_window [OF h1 h2 h3 h4 w2, of 90000000 94]
  have a1: "set (getPriceHistory storeA 3600000 ''bitcoin'' 60)
              = {sample 2 ''bitcoin'' 100 0, sample 3 ''bitcoin'' 98 1800}"
    using a [THEN conjunct1] unfolding k .
  have a2: "fst (shouldTriggerAlert (quiet 30 []) storeA 3600000 btcAlert 94)"
    using a [THEN conjunct2] unfolding k l q by (simp add: sample_def pct)
  have b2: "checkAlert (quietAt 90000000 30 []) storeA 90000000 btcAlert 94 =
       (storeA, [Call_getRecentAlertLogs 1 30, Call_getPriceHistory ''bitcoin'' 60,
                 Log Debug (No_price_history_available ''bitcoin'')])"
    using b [THEN conjunct2] unfolding k by (simp add: quietAt_def)
  show ?thesis using a1 l a2 b2 by simp
qed

section \<open>Triggering\<close>

text \<open>
  Claim C4. In the scenario the store holds the asset, an active alert on it with a
  threshold of 5 percent and samples of which the oldest in the window is 100; the price
  source answers 94. The sample is recorded, the alert is evaluated and triggers with a
  computed change of \<open>-6\<close>. \<open>triggerAlert\<close> calls \<open>createAlertLog\<close> with the alert id,
  the instant, the change, the old and the new price and \<open>sent = false\<close> before
  anything else, and the call throws, because the boolean cannot be bound: the handler
  of \<open>triggerAlert\<close> logs the error and no entry is in the store after the tick (first
  and second conjunct). This is so for every trigger: the write of an entry with
  \<open>sent = false\<close> throws in every store, and no tick changes the log (third and fourth
  conjunct). The other half of the claim holds: after the failed write no message is
  sent (fifth conjunct), and the remaining alerts are evaluated (claim C8).
\<close>

theorem C4_log_entry_is_never_written:
  "checkPriceChanges (quiet 30 [(''bitcoin'', 94)]) storeA =
     (storeA\<lparr>price_history := price_history storeA @ [sample 4 ''bitcoin'' 94 3600]\<rparr>,
      [Log Info Starting_price_change_check, Call_getAllActiveAlerts,
       Log Debug (Checking_prices_for 1), Call_getCurrentPrices [''bitcoin''],
       Call_savePriceHistory ''bitcoin'' 94,
       Call_getRecentAlertLogs 1 30, Call_getPriceHistory ''bitcoin'' 60,
       Log Info (Alert_should_trigger 1 (Fin (- 6))),
       Call_getPriceHistory ''bitcoin'' 60,
       Log Info (Triggering_alert 1 1),
       Call_createAlertLog 1 3600000 (Fin (- 6)) 100 94 False,
       Log Error Error_triggering_alert,
       Log Info Price_change_check_completed])
   \<and> alert_logs (fst (checkPriceChanges (quiet 30 [(''bitcoin'', 94)]) storeA)) = []
   \<and> createAlertLog st aid now pc old new False = None
   \<and> alert_logs (fst (checkPriceChanges e st)) = alert_logs st
   \<and> Call_sendMessage t m \<notin> set (snd (checkPriceChanges e st))"
proof -
  have c1: "checkPriceChanges (quiet 30 [(''bitcoin'', 94)]) storeA =
     (storeA\<lparr>price_history := price_history storeA @ [sample 4 ''bitcoin'' 94 3600]\<rparr>,
      [Log Info Starting_price_change_check, Call_getAllActiveAlerts,
       Log Debug (Checking_prices_for 1), Call_getCurrentPrices [''bitcoin''],
       Call_savePriceHistory ''bitcoin'' 94,
       Call_getRecentAlertLogs 1 30, Call_getPriceHistory ''bitcoin'' 60,
       Log Info (Alert_should_trigger 1 (Fin (- 6))),
       Call_getPriceHistory ''bitcoin'' 60,
       Log Info (Triggering_alert 1 1),
       Call_createAlertLog 1 3600000 (Fin (- 6)) 100 94 False,
       Log Error Error_triggering_alert,
       Log Info Price_change_check_completed])"
    by (simp add: run scen pct)
  have c2: "alert_logs (fst (checkPriceChanges (quiet 30 [(''bitcoin'', 94)]) storeA)) = []"
    unfolding c1 by (simp add: storeA_def)
  have c3: "createAlertLog st aid now pc old new False = None"
    by (rule createAlertLog_throws)
  have c4: "alert_logs (fst (checkPriceChanges e st)) = alert_logs st"
    by (rule checkPriceChanges_alert_logs)
  have c5: "Call_sendMessage t m \<notin> set (snd (checkPriceChanges e st))"
    by (rule checkPriceChanges_no_send)
  show ?thesis by (intro conjI) (fact c1 c2 c3 c4 c5)+
qed

section \<open>Recording the samples\<close>

text \<open>
  Claim C7. Both assets returned a price, the store has a row for each of them in
  \<open>cryptocurrencies\<close>, and the insert of the bitcoin sample throws (the database is
  locked or its disk is full) while the insert of the ethereum sample would not. The loop
  over the fetched prices has no handler of its own, the throw reaches the handler of the
  tick, and the sample of ethereum is not recorded: the store is left as it was (lemma
  \<open>savePrices_until_throw\<close> for any answer of the price source).
\<close>

theorem C7_failed_save_loses_the_later_samples:
  "savePriceHistory_throws
     ((quiet 30 [(''bitcoin'', 94), (''ethereum'', 10)])
        \<lparr>savePriceHistory_throws := (\<lambda>cid. cid = ''bitcoin'')\<rparr>) ''bitcoin''
   \<and> \<not> savePriceHistory_throws
        ((quiet 30 [(''bitcoin'', 94), (''ethereum'', 10)])
           \<lparr>savePriceHistory_throws := (\<lambda>cid. cid = ''bitcoin'')\<rparr>) ''ethereum''
   \<and> savePriceHistory twoAssets 3600000 ''ethereum'' 10 \<noteq> None
   \<and> checkPriceChanges
       ((quiet 30 [(''bitcoin'', 94), (''ethereum'', 10)])
          \<lparr>savePriceHistory_throws := (\<lambda>cid. cid = ''bitcoin'')\<rparr>) twoAssets =
       (twoAssets,
        [Log Info Starting_price_change_check, Call_getAllActiveAlerts,
         Log Debug (Checking_prices_for 2), Call_getCurrentPrices [''bitcoin'', ''ethereum''],
         Call_savePriceHistory ''bitcoin'' 94,
         Log Error Error_during_price_change_check])"
  by (simp add: run scen twoAssets_def ethAlert_def)

section \<open>Isolation of the alerts\<close>

text \<open>
  Claim C8. The loop over the alerts runs the evaluation of every alert of every asset
  that has a price, in the order of the groups, whatever the evaluations of the other
  alerts did: its trace is the concatenation of the traces of the evaluations, each one
  run to its end (first conjunct, for any environment, so for any throw of the two
  queries of the decision, of the second history query, of the write of the log entry).
  One evaluation is the decision, which starts with the query for recent log entries,
  and, when the decision is to trigger, the second history query and the triggering,
  where a throw only adds its error line (second and third conjunct). In a tick that
  reads the alerts, fetches the prices and records them, the trace of the tick contains
  that loop, and so the whole evaluation of every active alert whose asset has a price
  (fourth conjunct).
\<close>

theorem C8_errors_do_not_stop_the_other_alerts:
  "checkGroups e st prices groups =
     (st, concat (map (\<lambda>(cid, alerts).
                         case map_of prices cid of
                           None \<Rightarrow> [Log Warn (No_current_price_available cid)]
                         | Some currentPrice \<Rightarrow>
                             if currentPrice = 0
                             then [Log Warn (No_current_price_available cid)]
                             else concat (map (\<lambda>a. snd (checkAlert e st
                                                          (clock_cooldownQuery e (alert_id a))
                                                          a currentPrice)) alerts))
                      groups))
   \<and> snd (checkAlert e st now a c) =
       snd (shouldTriggerAlert e st now a c) @
       (if fst (shouldTriggerAlert e st now a c)
        then Call_getPriceHistory (cryptoId a) (timeframeMinutes a) #
             (if historyRequery_throws e (alert_id a)
              then [Log Error (Error_checking_alert (alert_id a))]
              else if getPriceHistory st (clock_historyRequery e (alert_id a)) (cryptoId a)
                        (timeframeMinutes a) = []
              then []
              else [Log Info (Triggering_alert (alert_id a) (userId a)),
                    Call_createAlertLog (alert_id a) (clock_newDate e (alert_id a))
                      (priceChangePercent c
                         (price (last (getPriceHistory st
                                         (clock_historyRequery e (alert_id a))
                                         (cryptoId a) (timeframeMinutes a)))))
                      (price (last (getPriceHistory st (clock_historyRequery e (alert_id a))
                                      (cryptoId a) (timeframeMinutes a))))
                      c False,
                    Log Error Error_triggering_alert])
        else [])
   \<and> (\<exists>evs. snd (shouldTriggerAlert e st now a c) =
          Call_getRecentAlertLogs (alert_id a) (ALERT_COOLDOWN_MINUTES e) # evs)
   \<and> (\<not> getAllActiveAlerts_throws e \<and> getAllActiveAlerts st \<noteq> []
      \<and> getCurrentPrices e (map fst (alertsByCrypto (getAllActiveAlerts st))) = Some prices
      \<and> fst (savePrices e st prices)
      \<longrightarrow> snd (checkPriceChanges e st) =
            [Log Info Starting_price_change_check, Call_getAllActiveAlerts,
             Log Debug (Checking_prices_for (length (alertsByCrypto (getAllActiveAlerts st)))),
             Call_getCurrentPrices (map fst (alertsByCrypto (getAllActiveAlerts st)))]
            @ snd (snd (savePrices e st prices))
            @ snd (checkGroups e (fst (snd (savePrices e st prices))) prices
                     (alertsByCrypto (getAllActiveAlerts st)))
            @ [Log Info Price_change_check_completed]
        \<and> (\<forall>b currentPrice.
              b \<in> set (alert_configs st) \<and> isActive b
              \<and> map_of prices (cryptoId b) = Some currentPrice \<and> currentPrice \<noteq> 0
              \<longrightarrow> (\<exists>pre post. snd (checkPriceChanges e st) =
                     pre @ snd (checkAlert e (fst (snd (savePrices e st prices)))
                                  (clock_cooldownQuery e (alert_id b)) b currentPrice)
                     @ post)))"
proof (intro conjI impI allI)
  show "checkGroups e st prices groups =
     (st, concat (map (\<lambda>(cid, alerts).
                         case map_of prices cid of
                           None \<Rightarrow> [Log Warn (No_current_price_available cid)]
                         | Some currentPrice \<Rightarrow>
                             if currentPrice = 0
                             then [Log Warn (No_current_price_available cid)]
                             else concat (map (\<lambda>a. snd (checkAlert e st
                                                          (clock_cooldownQuery e (alert_id a))
                                                          a currentPrice)) alerts))
                      groups))"
    by (rule checkGroups_eq)
next
  show "snd (checkAlert e st now a c) =
       snd (shouldTriggerAlert e st now a c) @
       (if fst (shouldTriggerAlert e st now a c)
        then Call_getPriceHistory (cryptoId a) (timeframeMinutes a) #
             (if historyRequery_throws e (alert_id a)
              then [Log Error (Error_checking_alert (alert_id a))]
              else if getPriceHistory st (clock_historyRequery e (alert_id a)) (cryptoId a)
                        (timeframeMinutes a) = []
              then []
              else [Log Info (Triggering_alert (alert_id a) (userId a)),
                    Call_createAlertLog (alert_id a) (clock_newDate e (alert_id a))
                      (priceChangePercent c
                         (price (last (getPriceHistory st
                                         (clock_historyRequery e (alert_id a))
                                         (cryptoId a) (timeframeMinutes a)))))
                      (price (last (getPriceHistory st (clock_historyRequery e (alert_id a))
                                      (cryptoId a) (timeframeMinutes a))))
                      c False,
                    Log Error Error_triggering_alert])
        else [])"
    by (rule checkAlert_events)
next
  show "\<exists>evs. snd (shouldTriggerAlert e st now a c) =
          Call_getRecentAlertLogs (alert_id a) (ALERT_COOLDOWN_MINUTES e) # evs"
    by (rule shouldTriggerAlert_first_event)
next
  assume h: "\<not> getAllActiveAlerts_throws e \<and> getAllActiveAlerts st \<noteq> []
      \<and> getCurrentPrices e (map fst (alertsByCrypto (getAllActiveAlerts st))) = Some prices
      \<and> fst (savePrices e st prices)"
  then have eq: "checkPriceChanges e st =
           (fst (snd (savePrices e st prices)),
            [Log Info Starting_price_change_check, Call_getAllActiveAlerts,
             Log Debug (Checking_prices_for (length (alertsByCrypto (getAllActiveAlerts st)))),
             Call_getCurrentPrices (map fst (alertsByCrypto (getAllActiveAlerts st)))]
            @ snd (snd (savePrices e st prices))
            @ snd (checkGroups e (fst (snd (savePrices e st prices))) prices
                     (alertsByCrypto (getAllActiveAlerts st)))
            @ [Log Info Price_change_check_completed])"
    by (intro checkPriceChanges_reaches_loop) simp_all
  then show tr: "snd (checkPriceChanges e st) =
            [Log Info Starting_price_change_check, Call_getAllActiveAlerts,
             Log Debug (Checking_prices_for (length (alertsByCrypto (getAllActiveAlerts st)))),
             Call_getCurrentPrices (map fst (alertsByCrypto (getAllActiveAlerts st)))]
            @ snd (snd (savePrices e st prices))
            @ snd (checkGroups e (fst (snd (savePrices e st prices))) prices
                     (alertsByCrypto (getAllActiveAlerts st)))
            @ [Log Info Price_change_check_completed]"
    by simp
  fix b currentPrice
  assume b: "b \<in> set (alert_configs st) \<and> isActive b
              \<and> map_of prices (cryptoId b) = Some currentPrice \<and> currentPrice \<noteq> 0"
  then have "b \<in> set (getAllActiveAlerts st)" by (simp add: getAllActiveAlerts_def)
  then obtain bs where g: "(cryptoId b, bs) \<in> set (alertsByCrypto (getAllActiveAlerts st))"
      "b \<in> set bs"
    using alertsByCrypto_has by blast
  from checkGroups_block [OF g, of prices currentPrice e "fst (snd (savePrices e st prices))"] b
  obtain pre post where
    "snd (checkGroups e (fst (snd (savePrices e st prices))) prices
            (alertsByCrypto (getAllActiveAlerts st)))
       = pre @ snd (checkAlert e (fst (snd (savePrices e st prices)))
                      (clock_cooldownQuery e (alert_id b)) b currentPrice) @ post"
    by blast
  then have "snd (checkPriceChanges e st) =
     ([Log Info Starting_price_change_check, Call_getAllActiveAlerts,
       Log Debug (Checking_prices_for (length (alertsByCrypto (getAllActiveAlerts st)))),
       Call_getCurrentPrices (map fst (alertsByCrypto (getAllActiveAlerts st)))]
      @ snd (snd (savePrices e st prices)) @ pre)
     @ snd (checkAlert e (fst (snd (savePrices e st prices)))
              (clock_cooldownQuery e (alert_id b)) b currentPrice)
     @ (post @ [Log Info Price_change_check_completed])"
    using tr by simp
  then show "\<exists>pre post. snd (checkPriceChanges e st) =
                     pre @ snd (checkAlert e (fst (snd (savePrices e st prices)))
                                  (clock_cooldownQuery e (alert_id b)) b currentPrice)
                     @ post"
    by blast
qed

text \<open>
  Three alerts, two of them on bitcoin. The write of the log entry of the first throws,
  the second history query of the alert on ethereum throws: all three are evaluated.
\<close>

theorem C8_witness:
  "snd (checkPriceChanges
          ((quiet 30 [(''bitcoin'', 94), (''ethereum'', 10)])
             \<lparr>historyRequery_throws := (\<lambda>aid. aid = 2)\<rparr>) threeAlerts) =
     [Log Info Starting_price_change_check, Call_getAllActiveAlerts,
      Log Debug (Checking_prices_for 2), Call_getCurrentPrices [''bitcoin'', ''ethereum''],
      Call_savePriceHistory ''bitcoin'' 94, Call_savePriceHistory ''ethereum'' 10,
      Call_getRecentAlertLogs 1 30, Call_getPriceHistory ''bitcoin'' 60,
      Log Info (Alert_should_trigger 1 (Fin (- 6))),
      Call_getPriceHistory ''bitcoin'' 60,
      Log Info (Triggering_alert 1 1),
      Call_createAlertLog 1 3600000 (Fin (- 6)) 100 94 False,
      Log Error Error_triggering_alert,
      Call_getRecentAlertLogs 3 30, Call_getPriceHistory ''bitcoin'' 60,
      Call_getRecentAlertLogs 2 30, Call_getPriceHistory ''ethereum'' 60,
      Log Info (Alert_should_trigger 2 (Fin (- 50))),
      Call_getPriceHistory ''ethereum'' 60,
      Log Error (Error_checking_alert 2),
      Log Info Price_change_check_completed]"
proof -
  let ?e = "(quiet 30 [(''bitcoin'', 94), (''ethereum'', 10)])
              \<lparr>historyRequery_throws := (\<lambda>aid. aid = 2)\<rparr>"
  let ?prices = "[(''bitcoin'', 94::rat), (''ethereum'', 10)]"
  let ?st1 = "threeAlerts\<lparr>price_history := price_history threeAlerts @
                [sample 3 ''bitcoin'' 94 3600, sample 4 ''ethereum'' 10 3600]\<rparr>"
  have g: "alertsByCrypto (getAllActiveAlerts threeAlerts)
             = [(''bitcoin'', [btcAlert, btcAlert29]), (''ethereum'', [ethAlert])]"
    by (simp add: alertsByCrypto_def getAllActiveAlerts_def threeAlerts_def twoAssets_def
          btcAlert_def ethAlert_def btcAlert29_def)
  have s: "savePrices ?e threeAlerts ?prices =
             (True, ?st1, [Call_savePriceHistory ''bitcoin'' 94,
                           Call_savePriceHistory ''ethereum'' 10])"
    by (simp add: savePriceHistory_def threeAlerts_def twoAssets_def scen nextId_def)
  have h: "\<not> getAllActiveAlerts_throws ?e \<and> getAllActiveAlerts threeAlerts \<noteq> []
      \<and> getCurrentPrices ?e (map fst (alertsByCrypto (getAllActiveAlerts threeAlerts)))
          = Some ?prices
      \<and> fst (savePrices ?e threeAlerts ?prices)"
    unfolding s by (simp add: scen getAllActiveAlerts_def threeAlerts_def twoAssets_def)
  note t = C8_errors_do_not_stop_the_other_alerts
             [where e = "?e" and prices = "?prices" and st = threeAlerts]
  note t1 = C8_errors_do_not_stop_the_other_alerts
             [where e = "?e" and prices = "?prices" and st = "?st1"
                and groups = "[(''bitcoin'', [btcAlert, btcAlert29]), (''ethereum'', [ethAlert])]",
              THEN conjunct1]
  have tick: "snd (checkPriceChanges ?e threeAlerts) =
            [Log Info Starting_price_change_check, Call_getAllActiveAlerts,
             Log Debug (Checking_prices_for
                          (length (alertsByCrypto (getAllActiveAlerts threeAlerts)))),
             Call_getCurrentPrices (map fst (alertsByCrypto (getAllActiveAlerts threeAlerts)))]
            @ snd (snd (savePrices ?e threeAlerts ?prices))
            @ snd (checkGroups ?e (fst (snd (savePrices ?e threeAlerts ?prices))) ?prices
                     (alertsByCrypto (getAllActiveAlerts threeAlerts)))
            @ [Log Info Price_change_check_completed]"
    using t h by blast
  have loop: "snd (checkGroups ?e ?st1 ?prices
                     [(''bitcoin'', [btcAlert, btcAlert29]), (''ethereum'', [ethAlert])]) =
       snd (checkAlert ?e ?st1 3600000 btcAlert 94)
       @ snd (checkAlert ?e ?st1 3600000 btcAlert29 94)
       @ snd (checkAlert ?e ?st1 3600000 ethAlert 10)"
    using t1 by (simp add: scen)
  have a1: "snd (checkAlert ?e ?st1 3600000 btcAlert 94) =
      [Call_getRecentAlertLogs 1 30, Call_getPriceHistory ''bitcoin'' 60,
       Log Info (Alert_should_trigger 1 (Fin (- 6))),
       Call_getPriceHistory ''bitcoin'' 60,
       Log Info (Triggering_alert 1 1),
       Call_createAlertLog 1 3600000 (Fin (- 6)) 100 94 False,
       Log Error Error_triggering_alert]"
    by (simp add: run scen threeAlerts_def twoAssets_def pct)
  have a3: "snd (checkAlert ?e ?st1 3600000 btcAlert29 94) =
      [Call_getRecentAlertLogs 3 30, Call_getPriceHistory ''bitcoin'' 60]"
    by (simp add: run scen threeAlerts_def twoAssets_def btcAlert29_def pct)
  have a2: "snd (checkAlert ?e ?st1 3600000 ethAlert 10) =
      [Call_getRecentAlertLogs 2 30, Call_getPriceHistory ''ethereum'' 60,
       Log Info (Alert_should_trigger 2 (Fin (- 50))),
       Call_getPriceHistory ''ethereum'' 60,
       Log Error (Error_checking_alert 2)]"
    by (simp add: run scen threeAlerts_def twoAssets_def ethAlert_def pct)
  show ?thesis
    unfolding tick g s fst_conv snd_conv loop a1 a2 a3 by simp
qed

section \<open>Assets without a price\<close>

text \<open>
  Claim C9, as stated, fails in its last part: an asset for which the price source
  returned the price 0 did return a price, and its alert is not evaluated, because
  \<open>!currentPrice\<close> holds for 0 as it does for a missing entry.
\<close>

theorem C9_counterexample:
  "map_of [(''bitcoin'', 99), (''ethereum'', 0::rat)] (cryptoId ethAlert) = Some 0
   \<and> ethAlert \<in> set (getAllActiveAlerts twoAssets)
   \<and> snd (checkPriceChanges (quiet 30 [(''bitcoin'', 99), (''ethereum'', 0)]) twoAssets)
     = [Log Info Starting_price_change_check, Call_getAllActiveAlerts,
        Log Debug (Checking_prices_for 2), Call_getCurrentPrices [''bitcoin'', ''ethereum''],
        Call_savePriceHistory ''bitcoin'' 99, Call_savePriceHistory ''ethereum'' 0,
        Call_getRecentAlertLogs 1 30, Call_getPriceHistory ''bitcoin'' 60,
        Log Warn (No_current_price_available ''ethereum''),
        Log Info Price_change_check_completed]"
  by (simp add: run scen twoAssets_def ethAlert_def pct)

text \<open>
  Claim C9, amended. Take a tick in which the active alerts are read, the prices are
  fetched and every fetched price is recorded without a throw, so that the tick reaches
  the loop over the alerts, and a store in which the alert ids are unique (they are the
  primary key of their table). An active alert whose asset is not in the answer of the
  price source, or is there with the price 0, is skipped with a warning: no query for
  its recent log entries is made, no decision to trigger it and no triggering is logged,
  and no write of a log entry is attempted for it, so the absence is not a trigger.
  Every active alert whose asset has a price other than 0 is evaluated in the same tick:
  the whole trace of its evaluation is part of the trace of the tick.
\<close>

theorem C9_missing_price_skips_the_alert:
  assumes "\<not> getAllActiveAlerts_throws e"
    and "getCurrentPrices e (map fst (alertsByCrypto (getAllActiveAlerts st))) = Some prices"
    and "fst (savePrices e st prices)"
    and "distinct (map alert_id (alert_configs st))"
    and "a \<in> set (alert_configs st)" and "isActive a"
    and "map_of prices (cryptoId a) = None \<or> map_of prices (cryptoId a) = Some 0"
  shows "Log Warn (No_current_price_available (cryptoId a))
           \<in> set (snd (checkPriceChanges e st))
       \<and> (\<forall>m. Call_getRecentAlertLogs (alert_id a) m \<notin> set (snd (checkPriceChanges e st)))
       \<and> (\<forall>pc. Log Info (Alert_should_trigger (alert_id a) pc)
                 \<notin> set (snd (checkPriceChanges e st)))
       \<and> (\<forall>u. Log Info (Triggering_alert (alert_id a) u)
                \<notin> set (snd (checkPriceChanges e st)))
       \<and> (\<forall>t pc old new s. Call_createAlertLog (alert_id a) t pc old new s
                \<notin> set (snd (checkPriceChanges e st)))
       \<and> (\<forall>b c. b \<in> set (alert_configs st) \<and> isActive b
                \<and> map_of prices (cryptoId b) = Some c \<and> c \<noteq> 0
              \<longrightarrow> (\<exists>pre post. snd (checkPriceChanges e st) =
                     pre @ snd (checkAlert e (fst (snd (savePrices e st prices)))
                                  (clock_cooldownQuery e (alert_id b)) b c)
                     @ post))"
proof -
  let ?groups = "alertsByCrypto (getAllActiveAlerts st)"
  let ?tr = "snd (checkPriceChanges e st)"
  let ?st1 = "fst (snd (savePrices e st prices))"
  let ?head = "[Log Info Starting_price_change_check, Call_getAllActiveAlerts,
             Log Debug (Checking_prices_for (length ?groups)),
             Call_getCurrentPrices (map fst ?groups)]"
  have act: "a \<in> set (getAllActiveAlerts st)"
    using assms(5,6) by (simp add: getAllActiveAlerts_def)
  then have ne: "getAllActiveAlerts st \<noteq> []" by auto
  have tr: "?tr = ?head @ snd (snd (savePrices e st prices))
                  @ snd (checkGroups e ?st1 prices ?groups)
                  @ [Log Info Price_change_check_completed]"
    using checkPriceChanges_reaches_loop [OF assms(1) ne assms(2,3)] by simp
  from act obtain as where g: "(cryptoId a, as) \<in> set ?groups"
    using alertsByCrypto_has by blast
  have warn: "Log Warn (No_current_price_available (cryptoId a)) \<in> set ?tr"
    unfolding tr using checkGroups_warns [OF g assms(7)] by simp
  have none: False
    if ev: "ev \<in> set ?tr"
      and ab: "(\<exists>m. ev = Call_getRecentAlertLogs (alert_id a) m)
         \<or> (\<exists>t pc old new s. ev = Call_createAlertLog (alert_id a) t pc old new s)
         \<or> (\<exists>pc. ev = Log Info (Alert_should_trigger (alert_id a) pc))
         \<or> (\<exists>u. ev = Log Info (Triggering_alert (alert_id a) u))" for ev
  proof -
    have ns: "ev \<notin> set (snd (snd (savePrices e st prices)))"
      using savePrices_events [of ev e st prices] ab by auto
    have "ev \<in> set (snd (checkGroups e ?st1 prices ?groups))"
      using ev ns ab unfolding tr by auto
    from checkGroups_event_cases [OF this] ab obtain k bs b c where
        b: "(k, bs) \<in> set ?groups" "b \<in> set bs" "map_of prices k = Some c" "c \<noteq> 0"
           "ev \<in> set (snd (checkAlert e ?st1 (clock_cooldownQuery e (alert_id b)) b c))"
      by auto
    from checkAlert_about [OF b(5) ab] have id: "alert_id a = alert_id b" .
    from alertsByCrypto_from [OF b(1,2)] have mem: "b \<in> set (alert_configs st)"
        and key: "k = cryptoId b"
      by (simp_all add: getAllActiveAlerts_def)
    have "inj_on alert_id (set (alert_configs st))"
      using assms(4) by (simp add: distinct_map)
    then have "a = b" using mem id assms(5) by (auto dest: inj_onD)
    then show False using b(3,4) key assms(7) by auto
  qed
  have others: "\<exists>pre post. ?tr = pre @ snd (checkAlert e ?st1
                                   (clock_cooldownQuery e (alert_id b)) b c) @ post"
    if "b \<in> set (alert_configs st)" "isActive b" "map_of prices (cryptoId b) = Some c" "c \<noteq> 0"
    for b c
  proof -
    have "b \<in> set (getAllActiveAlerts st)" using that(1,2) by (simp add: getAllActiveAlerts_def)
    then obtain bs where "(cryptoId b, bs) \<in> set ?groups" "b \<in> set bs"
      using alertsByCrypto_has by blast
    from checkGroups_block [OF this that(3,4), of e ?st1] obtain pre post where
      "snd (checkGroups e ?st1 prices ?groups)
         = pre @ snd (checkAlert e ?st1 (clock_cooldownQuery e (alert_id b)) b c) @ post"
      by blast
    then have "?tr = (?head @ snd (snd (savePrices e st prices)) @ pre)
                     @ snd (checkAlert e ?st1 (clock_cooldownQuery e (alert_id b)) b c)
                     @ (post @ [Log Info Price_change_check_completed])"
      unfolding tr by simp
    then show ?thesis by blast
  qed
  have n1: "\<forall>m. Call_getRecentAlertLogs (alert_id a) m \<notin> set ?tr" using none by blast
  have n2: "\<forall>pc. Log Info (Alert_should_trigger (alert_id a) pc) \<notin> set ?tr"
    using none by blast
  have n3: "\<forall>u. Log Info (Triggering_alert (alert_id a) u) \<notin> set ?tr" using none by blast
  have n4: "\<forall>t pc old new s. Call_createAlertLog (alert_id a) t pc old new s \<notin> set ?tr"
    using none by blast
  have n5: "\<forall>b c. b \<in> set (alert_configs st) \<and> isActive b
                \<and> map_of prices (cryptoId b) = Some c \<and> c \<noteq> 0
              \<longrightarrow> (\<exists>pre post. ?tr = pre @ snd (checkAlert e ?st1
                                   (clock_cooldownQuery e (alert_id b)) b c) @ post)"
    using others by blast
  show ?thesis using warn n1 n2 n3 n4 n5 by (intro conjI)
qed

text \<open>The answer holds bitcoin only: the ethereum alert is skipped, the bitcoin alert evaluated.\<close>

theorem C9_witness:
  "Log Warn (No_current_price_available ''ethereum'')
     \<in> set (snd (checkPriceChanges (quiet 30 [(''bitcoin'', 99)]) twoAssets))
   \<and> Call_getRecentAlertLogs 2 30
     \<notin> set (snd (checkPriceChanges (quiet 30 [(''bitcoin'', 99)]) twoAssets))
   \<and> (\<exists>pre post. snd (checkPriceChanges (quiet 30 [(''bitcoin'', 99)]) twoAssets) =
        pre @ [Call_getRecentAlertLogs 1 30, Call_getPriceHistory ''bitcoin'' 60] @ post)"
proof -
  let ?e = "quiet 30 [(''bitcoin'', 99)]"
  let ?st1 = "twoAssets\<lparr>price_history := price_history twoAssets @
                [sample 3 ''bitcoin'' 99 3600]\<rparr>"
  have s: "savePrices ?e twoAssets [(''bitcoin'', 99)] =
             (True, ?st1, [Call_savePriceHistory ''bitcoin'' 99])"
    by (simp add: savePriceHistory_def twoAssets_def scen nextId_def)
  have h1: "\<not> getAllActiveAlerts_throws ?e" by (simp add: scen)
  have h2: "getCurrentPrices ?e (map fst (alertsByCrypto (getAllActiveAlerts twoAssets)))
              = Some [(''bitcoin'', 99)]"
    by (simp add: scen)
  have h3: "fst (savePrices ?e twoAssets [(''bitcoin'', 99)])"
    unfolding s by simp
  have h4: "distinct (map alert_id (alert_configs twoAssets))"
    by (simp add: twoAssets_def ethAlert_def btcAlert_def)
  have h5: "ethAlert \<in> set (alert_configs twoAssets)" by (simp add: twoAssets_def)
  have h6: "isActive ethAlert" by (simp add: ethAlert_def)
  have h7: "map_of [(''bitcoin'', 99::rat)] (cryptoId ethAlert) = None
            \<or> map_of [(''bitcoin'', 99::rat)] (cryptoId ethAlert) = Some 0"
    by (simp add: ethAlert_def)
  have b: "btcAlert \<in> set (alert_configs twoAssets) \<and> isActive btcAlert
           \<and> map_of [(''bitcoin'', 99::rat)] (cryptoId btcAlert) = Some 99 \<and> (99::rat) \<noteq> 0"
    by (simp add: twoAssets_def btcAlert_def)
  have k: "cryptoId ethAlert = ''ethereum''" "alert_id ethAlert = 2"
    by (simp_all add: ethAlert_def)
  have a1: "snd (checkAlert ?e (fst (snd (savePrices ?e twoAssets [(''bitcoin'', 99)])))
                   (clock_cooldownQuery ?e (alert_id btcAlert)) btcAlert 99) =
      [Call_getRecentAlertLogs 1 30, Call_getPriceHistory ''bitcoin'' 60]"
    unfolding s by (simp add: run scen twoAssets_def pct)
  note t = C9_missing_price_skips_the_alert [OF h1 h2 h3 h4 h5 h6 h7]
  have t1: "Log Warn (No_current_price_available (cryptoId ethAlert))
              \<in> set (snd (checkPriceChanges ?e twoAssets))"
    using t by (rule conjunct1)
  have t2: "Call_getRecentAlertLogs (alert_id ethAlert) 30
              \<notin> set (snd (checkPriceChanges ?e twoAssets))"
    using t by fast
  have t3: "\<exists>pre post. snd (checkPriceChanges ?e twoAssets) =
              pre @ snd (checkAlert ?e (fst (snd (savePrices ?e twoAssets [(''bitcoin'', 99)])))
                           (clock_cooldownQuery ?e (alert_id btcAlert)) btcAlert 99) @ post"
    using t b by fast
  show ?thesis using t1 t2 t3 unfolding k a1 by simp
qed

section \<open>The sample of the current tick\<close>

text \<open>
  Claim C10, as stated, fails: the insert of the sample and the history query of the
  evaluation each read the clock. With a window of 5 minutes, an empty history, the
  sample of the tick inserted at the instant 0 and the history query made 301 seconds
  later, the sample of the tick is older than the window, the query finds nothing and
  the tick takes the insufficient-history branch.
\<close>

theorem C10_counterexample:
  "map_of [(''bitcoin'', 94::rat)] (cryptoId (btcAlert\<lparr>timeframeMinutes := 5\<rparr>)) = Some 94
   \<and> clock_historyQuery ((quietAt 301000 30 [(''bitcoin'', 94)])\<lparr>clock_save := (\<lambda>cid. 0)\<rparr>) 1
       - clock_save ((quietAt 301000 30 [(''bitcoin'', 94)])\<lparr>clock_save := (\<lambda>cid. 0)\<rparr>)
           ''bitcoin'' = 301000
   \<and> checkPriceChanges ((quietAt 301000 30 [(''bitcoin'', 94)])\<lparr>clock_save := (\<lambda>cid. 0)\<rparr>)
       (storeA\<lparr>alert_configs := [btcAlert\<lparr>timeframeMinutes := 5\<rparr>], price_history := []\<rparr>)
     = (storeA\<lparr>alert_configs := [btcAlert\<lparr>timeframeMinutes := 5\<rparr>],
               price_history := [sample 1 ''bitcoin'' 94 0]\<rparr>,
        [Log Info Starting_price_change_check, Call_getAllActiveAlerts,
         Log Debug (Checking_prices_for 1), Call_getCurrentPrices [''bitcoin''],
         Call_savePriceHistory ''bitcoin'' 94,
         Call_getRecentAlertLogs 1 30, Call_getPriceHistory ''bitcoin'' 5,
         Log Debug (No_price_history_available ''bitcoin''),
         Log Info Price_change_check_completed])"
  by (simp add: run scen)

text \<open>
  Claim C10, amended. For an alert whose asset returned a price, in a tick that
  recorded every fetched price, when the second in which the history query of the
  evaluation reads the clock, less the window, is not after the second in which the
  insert of the asset's sample read it, the in-window history query finds at least one
  sample (first conjunct). When this holds for every active alert, no tick logs the
  line of the insufficient-history branch (second conjunct, for every outcome of the
  tick). And when moreover the asset has no earlier sample in the window, the answer of
  the price source names each asset once and the price is not 0, the in-window history
  is the sample just recorded, the baseline is the current price, the computed change is
  0 and an alert with a positive threshold does not trigger (third conjunct).
\<close>

theorem C10_current_sample_is_in_window:
  "(fst (savePrices e st prices) \<and> map_of prices (cryptoId a) = Some currentPrice
      \<and> cutoff (clock_historyQuery e (alert_id a)) (timeframeMinutes a)
          \<le> sqlNow (clock_save e (cryptoId a))
    \<longrightarrow> getPriceHistory (fst (snd (savePrices e st prices)))
          (clock_historyQuery e (alert_id a)) (cryptoId a) (timeframeMinutes a) \<noteq> [])
   \<and> ((\<forall>b \<in> set (alert_configs st).
          isActive b \<longrightarrow> cutoff (clock_historyQuery e (alert_id b)) (timeframeMinutes b)
                           \<le> sqlNow (clock_save e (cryptoId b)))
      \<longrightarrow> Log Debug (No_price_history_available k) \<notin> set (snd (checkPriceChanges e st)))
   \<and> (fst (savePrices e st prices) \<and> distinct (map fst prices)
      \<and> map_of prices (cryptoId a) = Some currentPrice \<and> currentPrice \<noteq> 0
      \<and> cutoff (clock_historyQuery e (alert_id a)) (timeframeMinutes a)
          \<le> sqlNow (clock_save e (cryptoId a))
      \<and> (\<forall>r \<in> set (price_history st).
            ph_cryptoId r = cryptoId a
            \<longrightarrow> timestamp r < cutoff (clock_historyQuery e (alert_id a)) (timeframeMinutes a))
      \<and> 0 < thresholdPercentage a
    \<longrightarrow> map price (getPriceHistory (fst (snd (savePrices e st prices)))
                     (clock_historyQuery e (alert_id a)) (cryptoId a) (timeframeMinutes a))
          = [currentPrice]
      \<and> priceChangePercent currentPrice currentPrice = Fin 0
      \<and> \<not> fst (shouldTriggerAlert e (fst (snd (savePrices e st prices))) now a currentPrice))"
proof (intro conjI impI)
  assume h: "fst (savePrices e st prices) \<and> map_of prices (cryptoId a) = Some currentPrice
      \<and> cutoff (clock_historyQuery e (alert_id a)) (timeframeMinutes a)
          \<le> sqlNow (clock_save e (cryptoId a))"
  then obtain r where
      r: "r \<in> set (price_history (fst (snd (savePrices e st prices))))"
         "ph_cryptoId r = cryptoId a" "timestamp r = sqlNow (clock_save e (cryptoId a))"
    using savePrices_records [of e st prices "cryptoId a" currentPrice] by blast
  have "cutoff (clock_historyQuery e (alert_id a)) (timeframeMinutes a) \<le> timestamp r"
    using h r(3) by simp
  with r(1,2) show "getPriceHistory (fst (snd (savePrices e st prices)))
          (clock_historyQuery e (alert_id a)) (cryptoId a) (timeframeMinutes a) \<noteq> []"
    by (rule recorded_in_window)
next
  assume h: "\<forall>b \<in> set (alert_configs st).
          isActive b \<longrightarrow> cutoff (clock_historyQuery e (alert_id b)) (timeframeMinutes b)
                           \<le> sqlNow (clock_save e (cryptoId b))"
  show "Log Debug (No_price_history_available k) \<notin> set (snd (checkPriceChanges e st))"
  proof
    assume "Log Debug (No_price_history_available k) \<in> set (snd (checkPriceChanges e st))"
    from checkPriceChanges_history_line [OF this] obtain b where
      "b \<in> set (alert_configs st)" "isActive b"
      "sqlNow (clock_save e (cryptoId b))
         < cutoff (clock_historyQuery e (alert_id b)) (timeframeMinutes b)"
      by blast
    then show False using h by fastforce
  qed
next
  assume h: "fst (savePrices e st prices) \<and> distinct (map fst prices)
      \<and> map_of prices (cryptoId a) = Some currentPrice \<and> currentPrice \<noteq> 0
      \<and> cutoff (clock_historyQuery e (alert_id a)) (timeframeMinutes a)
          \<le> sqlNow (clock_save e (cryptoId a))
      \<and> (\<forall>r \<in> set (price_history st).
            ph_cryptoId r = cryptoId a
            \<longrightarrow> timestamp r < cutoff (clock_historyQuery e (alert_id a)) (timeframeMinutes a))
      \<and> 0 < thresholdPercentage a"
  let ?st1 = "fst (snd (savePrices e st prices))"
  let ?h = "getPriceHistory ?st1 (clock_historyQuery e (alert_id a)) (cryptoId a)
              (timeframeMinutes a)"
  have one: "map price ?h = [currentPrice]"
    using h by (intro only_current_sample) simp_all
  then show "map price ?h = [currentPrice]" .
  show zero: "priceChangePercent currentPrice currentPrice = Fin 0"
    using h by (simp add: priceChangePercent_same)
  from one have ne: "?h \<noteq> []" by auto
  then have "price (last ?h) = last (map price ?h)" by (simp add: last_map)
  then have l: "price (last ?h) = currentPrice" using one by simp
  show "\<not> fst (shouldTriggerAlert e ?st1 now a currentPrice)"
    using h ne l zero by (simp add: shouldTriggerAlert_def Let_def)
qed

text \<open>
  A window of 5 minutes, an earlier sample before the window, the insert at the instant
  0 and the queries 299 seconds later.
\<close>

theorem C10_witness:
  "getPriceHistory
     (fst (snd (savePrices ((quietAt 299000 30 [(''bitcoin'', 94)])
                              \<lparr>clock_save := (\<lambda>cid. 0)\<rparr>)
                  (storeA\<lparr>alert_configs := [btcAlert\<lparr>timeframeMinutes := 5\<rparr>],
                          price_history := [sample 1 ''bitcoin'' 100 (- 10)]\<rparr>)
                  [(''bitcoin'', 94)])))
     299000 ''bitcoin'' 5 \<noteq> []
   \<and> Log Debug (No_price_history_available ''bitcoin'')
     \<notin> set (snd (checkPriceChanges
                   ((quietAt 299000 30 [(''bitcoin'', 94)])\<lparr>clock_save := (\<lambda>cid. 0)\<rparr>)
                   (storeA\<lparr>alert_configs := [btcAlert\<lparr>timeframeMinutes := 5\<rparr>],
                           price_history := [sample 1 ''bitcoin'' 100 (- 10)]\<rparr>)))
   \<and> map price
       (getPriceHistory
          (fst (snd (savePrices ((quietAt 299000 30 [(''bitcoin'', 94)])
                                   \<lparr>clock_save := (\<lambda>cid. 0)\<rparr>)
                       (storeA\<lparr>alert_configs := [btcAlert\<lparr>timeframeMinutes := 5\<rparr>],
                               price_history := [sample 1 ''bitcoin'' 100 (- 10)]\<rparr>)
                       [(''bitcoin'', 94)])))
          299000 ''bitcoin'' 5) = [94]
   \<and> \<not> fst (shouldTriggerAlert
              ((quietAt 299000 30 [(''bitcoin'', 94)])\<lparr>clock_save := (\<lambda>cid. 0)\<rparr>)
              (fst (snd (savePrices ((quietAt 299000 30 [(''bitcoin'', 94)])
                                       \<lparr>clock_save := (\<lambda>cid. 0)\<rparr>)
                           (storeA\<lparr>alert_configs := [btcAlert\<lparr>timeframeMinutes := 5\<rparr>],
                                   price_history := [sample 1 ''bitcoin'' 100 (- 10)]\<rparr>)
                           [(''bitcoin'', 94)])))
              299000 (btcAlert\<lparr>timeframeMinutes := 5\<rparr>) 94)"
proof -
  let ?e = "(quietAt 299000 30 [(''bitcoin'', 94)])\<lparr>clock_save := (\<lambda>cid. 0)\<rparr>"
  let ?a = "btcAlert\<lparr>timeframeMinutes := 5\<rparr>"
  let ?st = "storeA\<lparr>alert_configs := [?a],
                    price_history := [sample 1 ''bitcoin'' 100 (- 10)]\<rparr>"
  let ?prices = "[(''bitcoin'', 94::rat)]"
  have k: "cryptoId ?a = ''bitcoin''" "timeframeMinutes ?a = 5" "alert_id ?a = 1"
    "clock_historyQuery ?e 1 = 299000"
    by (simp_all add: btcAlert_def quietAt_def)
  have ok: "fst (savePrices ?e ?st ?prices)"
    by (simp add: savePriceHistory_def scen)
  have c: "cutoff (clock_historyQuery ?e (alert_id ?a)) (timeframeMinutes ?a)
             \<le> sqlNow (clock_save ?e (cryptoId ?a))"
    by (simp add: scen)
  have h1: "fst (savePrices ?e ?st ?prices) \<and> map_of ?prices (cryptoId ?a) = Some 94
      \<and> cutoff (clock_historyQuery ?e (alert_id ?a)) (timeframeMinutes ?a)
          \<le> sqlNow (clock_save ?e (cryptoId ?a))"
    using ok c by (simp add: btcAlert_def)
  have h2: "\<forall>b \<in> set (alert_configs ?st).
          isActive b \<longrightarrow> cutoff (clock_historyQuery ?e (alert_id b)) (timeframeMinutes b)
                           \<le> sqlNow (clock_save ?e (cryptoId b))"
    using c by (simp add: storeA_def)
  have h3: "fst (savePrices ?e ?st ?prices) \<and> distinct (map fst ?prices)
      \<and> map_of ?prices (cryptoId ?a) = Some 94 \<and> (94::rat) \<noteq> 0
      \<and> cutoff (clock_historyQuery ?e (alert_id ?a)) (timeframeMinutes ?a)
          \<le> sqlNow (clock_save ?e (cryptoId ?a))
      \<and> (\<forall>r \<in> set (price_history ?st).
            ph_cryptoId r = cryptoId ?a
            \<longrightarrow> timestamp r < cutoff (clock_historyQuery ?e (alert_id ?a)) (timeframeMinutes ?a))
      \<and> 0 < thresholdPercentage ?a"
    using ok c by (simp add: scen)
  note t = C10_current_sample_is_in_window
             [where e = "?e" and st = "?st" and prices = "?prices" and a = "?a"
                and currentPrice = 94 and k = "''bitcoin''" and now = 299000]
  have t1: "getPriceHistory (fst (snd (savePrices ?e ?st ?prices)))
          (clock_historyQuery ?e (alert_id ?a)) (cryptoId ?a) (timeframeMinutes ?a) \<noteq> []"
    using t h1 by blast
  have t2: "Log Debug (No_price_history_available ''bitcoin'')
              \<notin> set (snd (checkPriceChanges ?e ?st))"
    using t h2 by blast
  have t3: "map price (getPriceHistory (fst (snd (savePrices ?e ?st ?prices)))
                     (clock_historyQuery ?e (alert_id ?a)) (cryptoId ?a) (timeframeMinutes ?a))
          = [94]
      \<and> \<not> fst (shouldTriggerAlert ?e (fst (snd (savePrices ?e ?st ?prices))) 299000 ?a 94)"
    using t h3 by blast
  show ?thesis using t1 t2 t3 unfolding k by simp
qed

end
